theory Spec2Isabelle
  imports Main "HOL-Library.Sublist"
begin

section \<open>Python string operations used by the engine\<close>

text \<open>
  Text is modelled as \<^typ>\<open>string\<close>, a list of 8-bit characters, so the model covers
  ASCII text: \<open>str.lower\<close> maps the letters A..Z to a..z and leaves every other
  character alone, and \<open>str.strip\<close> removes the ASCII white space characters.
\<close>

definition lower_char :: "char \<Rightarrow> char" where
  "lower_char c =
     (case map_of (zip ''ABCDEFGHIJKLMNOPQRSTUVWXYZ'' ''abcdefghijklmnopqrstuvwxyz'') c of
        None \<Rightarrow> c
      | Some d \<Rightarrow> d)"

definition lower :: "string \<Rightarrow> string" where
  "lower s = map lower_char s"

text \<open>\<open>w in s\<close> on strings: \<open>w\<close> occurs in \<open>s\<close> as a contiguous block.\<close>

primrec str_in :: "string \<Rightarrow> string \<Rightarrow> bool" where
  "str_in w [] = (w = [])"
| "str_in w (c # cs) = (prefix w (c # cs) \<or> str_in w cs)"

definition is_space :: "char \<Rightarrow> bool" where
  "is_space c =
     (c \<in> set [CHR 0x09, CHR 0x0A, CHR 0x0B, CHR 0x0C, CHR 0x0D,
                CHR 0x1C, CHR 0x1D, CHR 0x1E, CHR 0x1F, CHR 0x20])"

definition strip :: "string \<Rightarrow> string" where
  "strip s = rev (dropWhile is_space (rev (dropWhile is_space s)))"

text \<open>\<open>sep.join(xs)\<close>.\<close>

fun join :: "string \<Rightarrow> string list \<Rightarrow> string" where
  "join sep [] = []"
| "join sep [x] = x"
| "join sep (x # y # ys) = x @ sep @ join sep (y # ys)"

text \<open>\<open>str(n)\<close> for a non-negative integer: its decimal digits.\<close>

definition digit_char :: "nat \<Rightarrow> char" where
  "digit_char d = ''0123456789'' ! d"

fun str_nat :: "nat \<Rightarrow> string" where
  "str_nat n = (if n < 10 then [digit_char n] else str_nat (n div 10) @ [digit_char (n mod 10)])"

text \<open>\<open>d.get(key, default)\<close> on a dictionary.\<close>

definition dict_get :: "('k \<rightharpoonup> 'v) \<Rightarrow> 'k \<Rightarrow> 'v \<Rightarrow> 'v" where
  "dict_get d key dflt = (case d key of None \<Rightarrow> dflt | Some v \<Rightarrow> v)"

section \<open>The prompt engine (\<open>src/prompt/engine.py\<close>)\<close>

definition technical_keywords :: "string list" where
  "technical_keywords =
     [''how'', ''implement'', ''configure'', ''setup'', ''technical'', ''specification'']"

definition summary_keywords :: "string list" where
  "summary_keywords = [''summarize'', ''summary'', ''overview'', ''brief'']"

definition comparison_keywords :: "string list" where
  "comparison_keywords = [''compare'', ''difference'', ''versus'', ''vs'', ''better'']"

text \<open>\<open>PromptEngine.detect_query_type\<close>: the three \<open>any(word in question_lower ...)\<close>
  tests in the order of the source.\<close>

definition detect_query_type :: "string \<Rightarrow> string" where
  "detect_query_type question =
     (let question_lower = lower question in
      if list_ex (\<lambda>word. str_in word question_lower) technical_keywords then ''technical''
      else if list_ex (\<lambda>word. str_in word question_lower) summary_keywords then ''summary''
      else if list_ex (\<lambda>word. str_in word question_lower) comparison_keywords
      then ''comparison''
      else ''general'')"

text \<open>A conversation exchange is a dictionary with the keys \<open>question\<close> and
  \<open>answer\<close>; the two lines the loop of \<open>enhance_query\<close> appends for one item.\<close>

type_synonym exchange = "string \<rightharpoonup> string"

definition render_exchange :: "exchange \<Rightarrow> string list" where
  "render_exchange item =
     [''Previous question: '' @ dict_get item ''question'' '''',
      ''Previous answer: '' @ take 200 (dict_get item ''answer'' '''') @ ''...'']"

text \<open>\<open>PromptEngine.enhance_query\<close>; \<open>conversation_history[-3:]\<close> is
  \<open>drop (length h - 3) h\<close>.\<close>

definition enhance_query :: "string \<Rightarrow> exchange list option \<Rightarrow> string" where
  "enhance_query question conversation_history =
     (case conversation_history of
        None \<Rightarrow> question
      | Some h \<Rightarrow>
          if h = [] then question
          else
            let recent_context = concat (map render_exchange (drop (length h - 3) h)) in
            if recent_context \<noteq> []
            then ''Context from previous conversation:\<newline>'' @ join ''\<newline>'' recent_context
                   @ ''\<newline>\<newline>Current question: '' @ question
            else question)"

section \<open>The knowledge-base client (\<open>src/kb/bedrock.py\<close>)\<close>

text \<open>The configuration read at construction, and whether a prompt engine was given.\<close>

record config =
  region :: string
  kb_id :: string
  model_id :: string
  prompt_engine :: bool

text \<open>The \<open>knowledgeBaseConfiguration\<close> of a request, flattened: the nested
  dictionaries of the source hold exactly these six values.\<close>

record retrieve_config =
  config_type :: string
  knowledgeBaseId :: string
  modelArn :: string
  numberOfResults :: nat
  orchestrationPromptTemplate :: string
  generationPromptTemplate :: string

text \<open>The keyword arguments of \<open>retrieve_and_generate\<close>; an absent key is \<open>None\<close>.\<close>

record params =
  input_text :: string
  retrieveAndGenerateConfiguration :: "retrieve_config option"
  sessionId :: "string option"

text \<open>What \<open>query\<close> reads of a provider response, apart from the citations.\<close>

record response =
  output_text :: "string option"
  response_sessionId :: "string option"

record error_info =
  Code :: "string option"
  Message :: "string option"

text \<open>The exceptions in play. \<open>ClientError\<close> carries the \<open>Error\<close> entry of its
  response, if any, and its own text \<open>str(e)\<close>; \<open>Exception\<close> stands for every other
  exception, with its text.\<close>

datatype py_exception =
    ValueError string
  | ClientError "error_info option" string
  | Exception string

fun str_exception :: "py_exception \<Rightarrow> string" where
  "str_exception (ValueError m) = m"
| "str_exception (ClientError info s) = s"
| "str_exception (Exception m) = m"

text \<open>\<open>e.response.get('Error', {}).get('Code', 'Unknown')\<close> and
  \<open>e.response.get('Error', {}).get('Message', str(e))\<close>.\<close>

definition error_code_of :: "error_info option \<Rightarrow> string" where
  "error_code_of info =
     (case info of
        None \<Rightarrow> ''Unknown''
      | Some i \<Rightarrow> (case Code i of None \<Rightarrow> ''Unknown'' | Some c \<Rightarrow> c))"

definition error_message_of :: "error_info option \<Rightarrow> string \<Rightarrow> string" where
  "error_message_of info str_e =
     (case info of
        None \<Rightarrow> str_e
      | Some i \<Rightarrow> (case Message i of None \<Rightarrow> str_e | Some m \<Rightarrow> m))"

text \<open>The provider is outside the program: a call is given the number of calls made
  before it in this \<open>query\<close> and the request, and raises or returns a response.\<close>

type_synonym provider = "nat \<Rightarrow> params \<Rightarrow> py_exception + response"

text \<open>The dictionary \<open>query\<close> returns. Its \<open>sources\<close>, \<open>sources_count\<close>,
  \<open>response_time_ms\<close> and \<open>timestamp\<close> entries are left out: they are computed from
  the citations and the clock, and nothing below reads them.\<close>

record query_result =
  answer :: string
  result_session_id :: "string option"
  result_query_type :: string
  result_enhanced_question :: "string option"
  metadata_model :: string
  metadata_kb_id :: string

text \<open>\<open>re.match(r'^[0-9a-zA-Z._:-]+$', session_id)\<close>: one or more characters of the
  class, then the end of the string or a single line feed just before it.\<close>

definition session_id_char :: "char \<Rightarrow> bool" where
  "session_id_char c =
     (c \<in> set ''0123456789abcdefghijklmnopqrstuvwxyzABCDEFGHIJKLMNOPQRSTUVWXYZ._:-'')"

definition session_id_matches :: "string \<Rightarrow> bool" where
  "session_id_matches s =
     (let body = (if s \<noteq> [] \<and> last s = CHR 0x0A then butlast s else s)
      in body \<noteq> [] \<and> list_all session_id_char body)"

definition orchestration_template :: string where
  "orchestration_template =
     ''Review the following retrieved documents and prepare a comprehensive context to help answer the user's question. Organize the information logically and include all relevant details.\<newline>''
     @ ''\<newline>''
     @ ''Retrieved Documents:\<newline>''
     @ ''$search_results$\<newline>''
     @ ''\<newline>''
     @ ''User Question:\<newline>''
     @ ''$query$\<newline>''
     @ ''\<newline>''
     @ ''Conversation History:\<newline>''
     @ ''$conversation_history$\<newline>''
     @ ''\<newline>''
     @ ''Output Format Instructions:\<newline>''
     @ ''$output_format_instructions$\<newline>''
     @ ''\<newline>''
     @ ''Organized Context:''"

definition generation_template :: string where
  "generation_template =
     ''Use the following pieces of context to answer the question at the end. If you don't know the answer, just say that you don't know, don't try to make up an answer.\<newline>''
     @ ''\<newline>''
     @ ''Context:\<newline>''
     @ ''$search_results$\<newline>''
     @ ''\<newline>''
     @ ''Question: $query$\<newline>''
     @ ''\<newline>''
     @ ''Answer:''"

text \<open>The helper \<open>build_retrieve_config\<close> of \<open>query\<close>.\<close>

definition build_retrieve_config :: "config \<Rightarrow> string \<Rightarrow> retrieve_config" where
  "build_retrieve_config self model_arn_value =
     \<lparr>config_type = ''KNOWLEDGE_BASE'',
      knowledgeBaseId = strip (kb_id self),
      modelArn = strip model_arn_value,
      numberOfResults = 5,
      orchestrationPromptTemplate = orchestration_template,
      generationPromptTemplate = generation_template\<rparr>"

text \<open>\<open>f"arn:aws:bedrock:{self.region}::foundation-model/{m}"\<close>, written four times
  in the source.\<close>

definition foundation_model_arn :: "config \<Rightarrow> string \<Rightarrow> string" where
  "foundation_model_arn self m = ''arn:aws:bedrock:'' @ region self @ ''::foundation-model/'' @ m"

text \<open>The helper \<open>get_model_arn\<close> of \<open>query\<close>; its first two branches differ only in
  what they log.\<close>

definition get_model_arn :: "config \<Rightarrow> string" where
  "get_model_arn self =
     (if prefix ''arn:aws:bedrock:'' (model_id self) then
        (if str_in '':inference-profile/'' (model_id self) then model_id self
         else model_id self)
      else foundation_model_arn self (model_id self))"

text \<open>The list \<open>model_arn_attempts\<close> that \<open>query\<close> builds after a model-related
  validation error, in its three steps; \<open>model_id.split(':')[0]\<close> is the text before the
  first colon.\<close>

definition alt_model :: string where
  "alt_model = ''anthropic.claude-3-5-sonnet-20240620-v1:0''"

definition model_arn_attempts :: "config \<Rightarrow> string \<Rightarrow> string list" where
  "model_arn_attempts self current_model_arn =
     (let foundation_arn = foundation_model_arn self (model_id self);
          attempts1 = (if foundation_arn \<noteq> current_model_arn then [foundation_arn] else []);
          attempts2 =
            (if str_in ''claude-3-5-sonnet'' (lower (model_id self)) then
               (if alt_model \<noteq> model_id self then
                  (let alt_foundation_arn = foundation_model_arn self alt_model in
                   if alt_foundation_arn \<noteq> current_model_arn \<and>
                      alt_foundation_arn \<notin> set attempts1
                   then attempts1 @ [alt_foundation_arn] else attempts1)
                else attempts1)
             else attempts1);
          attempts3 =
            (if str_in '':'' (model_id self) then
               (let base_model_id = takeWhile (\<lambda>c. c \<noteq> CHR '':'') (model_id self);
                    base_foundation_arn = foundation_model_arn self base_model_id in
                if base_foundation_arn \<noteq> current_model_arn \<and>
                   base_foundation_arn \<notin> set attempts2
                then attempts2 @ [base_foundation_arn] else attempts2)
             else attempts2)
      in attempts3)"

text \<open>The assignment to \<open>params[...]['modelArn']\<close> inside the retry loop.\<close>

definition set_model_arn :: "params \<Rightarrow> string \<Rightarrow> params" where
  "set_model_arn p arn =
     p\<lparr>retrieveAndGenerateConfiguration :=
          map_option (\<lambda>c. c\<lparr>modelArn := arn\<rparr>) (retrieveAndGenerateConfiguration p)\<rparr>"

text \<open>The retry loop: each alternative is written into the same request and sent;
  the first response ends the loop, every exception moves on to the next alternative.
  The result is the response if any, the request as the loop left it, and the requests
  sent. The number is the count of calls made so far.\<close>

fun retry_loop ::
  "provider \<Rightarrow> nat \<Rightarrow> params \<Rightarrow> string list \<Rightarrow> response option \<times> params \<times> params list"
where
  "retry_loop bedrock_agent n p [] = (None, p, [])"
| "retry_loop bedrock_agent n p (alt_model_arn # rest) =
     (let p' = set_model_arn p alt_model_arn in
      case bedrock_agent n p' of
        Inr resp \<Rightarrow> (Some resp, p', [p'])
      | Inl retry_e \<Rightarrow>
          (case retry_loop bedrock_agent (Suc n) p' rest of
             (r, p'', sent) \<Rightarrow> (r, p'', p' # sent)))"

definition is_model_error :: "string \<Rightarrow> bool" where
  "is_model_error error_message =
     (str_in ''invalid'' (lower error_message) \<or>
      str_in ''model'' (lower error_message) \<or>
      str_in ''identifier'' (lower error_message))"

definition aws_error :: "string \<Rightarrow> string \<Rightarrow> string" where
  "aws_error error_code error_message = ''AWS Error ('' @ error_code @ ''): '' @ error_message"

text \<open>The inner \<open>try\<close> of \<open>query\<close>: the first call and its two handlers. An exception
  raised inside the \<open>ClientError\<close> handler leaves the statement, so it is not seen by the
  \<open>except Exception\<close> clause next to it, which re-raises what it catches unchanged.\<close>

definition invoke ::
  "config \<Rightarrow> provider \<Rightarrow> params \<Rightarrow> (py_exception + response \<times> params) \<times> params list"
where
  "invoke self bedrock_agent p =
     (case bedrock_agent 0 p of
        Inr resp \<Rightarrow> (Inr (resp, p), [p])
      | Inl (ClientError info str_e) \<Rightarrow>
          (let error_code = error_code_of info;
               error_message = error_message_of info str_e in
           case retrieveAndGenerateConfiguration p of
             Some c \<Rightarrow>
               if error_code = ''ValidationException'' then
                 if is_model_error error_message then
                   (let current_model_arn = modelArn c;
                        attempts = model_arn_attempts self current_model_arn in
                    case retry_loop bedrock_agent 1 p attempts of
                      (Some resp, p', sent) \<Rightarrow> (Inr (resp, p'), p # sent)
                    | (None, p', sent) \<Rightarrow>
                        (Inl (Exception
                           (aws_error error_code error_message @ ''. Tried ''
                            @ str_nat (length attempts)
                            @ '' alternative model formats, all failed.'')),
                         p # sent))
                 else (Inl (Exception (aws_error error_code error_message)), [p])
               else (Inl (Exception (aws_error error_code error_message)), [p])
           | None \<Rightarrow> (Inl (Exception (aws_error error_code error_message)), [p]))
      | Inl e \<Rightarrow> (Inl e, [p]))"

text \<open>The dictionary returned after a successful call.\<close>

definition build_result ::
  "config \<Rightarrow> response \<Rightarrow> params \<Rightarrow> string option \<Rightarrow> string \<Rightarrow> string \<Rightarrow> query_result"
where
  "build_result self resp p query_type enhanced_question question =
     \<lparr>answer = (case output_text resp of None \<Rightarrow> ''No answer found'' | Some t \<Rightarrow> t),
      result_session_id =
        (case response_sessionId resp of
           Some s \<Rightarrow> if s \<noteq> [] then Some s else sessionId p
         | None \<Rightarrow> sessionId p),
      result_query_type =
        (case query_type of Some t \<Rightarrow> if t \<noteq> [] then t else ''general'' | None \<Rightarrow> ''general''),
      result_enhanced_question =
        (if enhanced_question \<noteq> question then Some enhanced_question else None),
      metadata_model = model_id self,
      metadata_kb_id = kb_id self\<rparr>"

text \<open>The enhancement step of \<open>query\<close>, on the stripped question. The history
  counts as given when it is neither \<open>None\<close> nor empty.\<close>

definition enhanced_question_of :: "config \<Rightarrow> string \<Rightarrow> exchange list option \<Rightarrow> bool \<Rightarrow> string" where
  "enhanced_question_of self question conversation_history use_advanced_prompts =
     (if use_advanced_prompts \<and> prompt_engine self \<and>
         (case conversation_history of None \<Rightarrow> False | Some h \<Rightarrow> h \<noteq> [])
      then
        (let e1 = enhance_query question conversation_history;
             e2 = (if e1 = [] then question else e1);
             e3 = strip e2
         in if e3 = [] then question else e3)
      else question)"

text \<open>The query type after the detection step.\<close>

definition query_type_of :: "config \<Rightarrow> string \<Rightarrow> string option \<Rightarrow> bool \<Rightarrow> string option" where
  "query_type_of self question query_type use_advanced_prompts =
     (if (query_type = None \<or> query_type = Some []) \<and> use_advanced_prompts \<and>
         prompt_engine self
      then Some (detect_query_type question)
      else query_type)"

text \<open>The session id after its format check: a non-empty id that does not match the
  pattern is dropped.\<close>

definition checked_session_id :: "string option \<Rightarrow> string option" where
  "checked_session_id session_id =
     (case session_id of
        None \<Rightarrow> None
      | Some s \<Rightarrow>
          if s \<noteq> [] then (if session_id_matches s then Some s else None)
          else Some s)"

text \<open>The request \<open>params\<close> as first built: the input text, the configuration, and
  the session id when it is non-empty.\<close>

definition build_params :: "config \<Rightarrow> string \<Rightarrow> string option \<Rightarrow> params" where
  "build_params self enhanced_question session_id =
     (let model_arn = get_model_arn self;
          p = \<lparr>input_text = enhanced_question,
               retrieveAndGenerateConfiguration = Some (build_retrieve_config self model_arn),
               sessionId = None\<rparr>
      in case session_id of
           None \<Rightarrow> p
         | Some s \<Rightarrow> if s \<noteq> [] then p\<lparr>sessionId := Some s\<rparr> else p)"

text \<open>The body of the outer \<open>try\<close> of \<open>query\<close>, with the requests sent.\<close>

definition query_body ::
  "config \<Rightarrow> provider \<Rightarrow> string \<Rightarrow> string option \<Rightarrow> exchange list option \<Rightarrow> string option
     \<Rightarrow> bool \<Rightarrow> (py_exception + query_result) \<times> params list"
where
  "query_body self bedrock_agent question0 session_id0 conversation_history query_type0
       use_advanced_prompts =
     (if question0 = [] then (Inl (ValueError ''Question must be a non-empty string''), [])
      else
        let question = strip question0 in
        if question = []
        then (Inl (ValueError ''Question cannot be empty or whitespace only''), [])
        else if kb_id self = [] \<or> strip (kb_id self) = []
        then (Inl (ValueError ''Knowledge Base ID is not configured or invalid''), [])
        else if model_id self = [] \<or> strip (model_id self) = []
        then (Inl (ValueError ''Model ID is not configured or invalid''), [])
        else
          let enhanced_question =
                enhanced_question_of self question conversation_history use_advanced_prompts;
              query_type = query_type_of self question query_type0 use_advanced_prompts;
              session_id = checked_session_id session_id0;
              p = build_params self enhanced_question session_id
          in
            if retrieveAndGenerateConfiguration p = None
            then (Inl (ValueError (''Missing required 'retrieveAndGenerateConfiguration''
                                   @ [CHR 0x27])), [])
            else
              (case invoke self bedrock_agent p of
                 (Inl e, sent) \<Rightarrow> (Inl e, sent)
               | (Inr (resp, p'), sent) \<Rightarrow>
                   (Inr (build_result self resp p' query_type enhanced_question question), sent)))"

definition auth_error_codes :: "string list" where
  "auth_error_codes =
     [''UnrecognizedClientException'', ''InvalidClientTokenId'', ''SignatureDoesNotMatch'']"

definition helpful_msg :: "string \<Rightarrow> string \<Rightarrow> string" where
  "helpful_msg error_code error_message =
     ''AWS Authentication Error ('' @ error_code @ ''): '' @ error_message @ ''\<newline>''
     @ ''Please configure AWS credentials using one of the following methods:\<newline>''
     @ ''  1. AWS credentials file: ~/.aws/credentials\<newline>''
     @ ''  2. Environment variables: AWS_ACCESS_KEY_ID and AWS_SECRET_ACCESS_KEY\<newline>''
     @ ''  3. IAM role (if running on EC2/ECS/Lambda)\<newline>''
     @ ''  4. AWS SSO: aws sso login\<newline>''
     @ ''  5. AWS CLI: aws configure''"

text \<open>\<open>BedrockKnowledgeBase.query\<close>: the check before the \<open>try\<close>, the body, and the
  two handlers of the outer \<open>try\<close>. The second component lists the requests sent to the
  provider, in order.\<close>

definition query ::
  "config \<Rightarrow> provider \<Rightarrow> string \<Rightarrow> string option \<Rightarrow> exchange list option \<Rightarrow> string option
     \<Rightarrow> bool \<Rightarrow> (py_exception + query_result) \<times> params list"
where
  "query self bedrock_agent question session_id conversation_history query_type
       use_advanced_prompts =
     (if kb_id self = [] then (Inl (ValueError ''Knowledge Base ID not configured''), [])
      else
        case query_body self bedrock_agent question session_id conversation_history query_type
               use_advanced_prompts of
          (Inr r, sent) \<Rightarrow> (Inr r, sent)
        | (Inl (ClientError info str_e), sent) \<Rightarrow>
            (let error_code = error_code_of info;
                 error_message = error_message_of info str_e in
             if error_code \<in> set auth_error_codes
             then (Inl (Exception (helpful_msg error_code error_message)), sent)
             else (Inl (Exception (aws_error error_code error_message)), sent))
        | (Inl e, sent) \<Rightarrow>
            (Inl (Exception (''Failed to query knowledge base: '' @ str_exception e)), sent))"

section \<open>Notions used to state the properties\<close>

text \<open>Some keyword of the list occurs in the lower-cased question, in the sense of
  \<^const>\<open>sublist\<close>: a contiguous block, wherever it starts and ends.\<close>

definition kw_match :: "string list \<Rightarrow> string \<Rightarrow> bool" where
  "kw_match kws q = (\<exists>w\<in>set kws. sublist w (lower q))"

text \<open>The model identifier a request carries.\<close>

definition request_model_arn :: "params \<Rightarrow> string" where
  "request_model_arn p =
     (case retrieveAndGenerateConfiguration p of None \<Rightarrow> [] | Some c \<Rightarrow> modelArn c)"

text \<open>The request \<open>query\<close> builds for its first call, from its arguments.\<close>

definition first_request ::
  "config \<Rightarrow> string \<Rightarrow> string option \<Rightarrow> exchange list option \<Rightarrow> bool \<Rightarrow> params" where
  "first_request self question session_id conversation_history use_advanced_prompts =
     build_params self
       (enhanced_question_of self (strip question) conversation_history use_advanced_prompts)
       (checked_session_id session_id)"

text \<open>The arguments and configuration pass the checks at the head of \<open>query\<close>.\<close>

definition valid_input :: "config \<Rightarrow> string \<Rightarrow> bool" where
  "valid_input self question =
     (strip question \<noteq> [] \<and> strip (kb_id self) \<noteq> [] \<and> strip (model_id self) \<noteq> [])"

section \<open>Example configurations, errors and providers\<close>

text \<open>Concrete inputs on which the properties below are evaluated: the default
  configuration of \<open>ConfigManager\<close> and a few variants of its model id, two provider
  errors, two responses, and providers that raise, return, or accept one model identifier
  only.\<close>

definition example_config :: config where
  "example_config =
     \<lparr>region = ''us-east-1'', kb_id = ''R6TD9J5RHA'', model_id = ''openai.gpt-oss-120b-1:0'',
      prompt_engine = True\<rparr>"

definition claude_config :: config where
  "claude_config =
     \<lparr>region = ''us-east-1'', kb_id = ''R6TD9J5RHA'',
      model_id = ''anthropic.claude-3-5-sonnet-20241022-v2:0'', prompt_engine = True\<rparr>"

definition arn_config :: config where
  "arn_config =
     \<lparr>region = ''us-east-1'', kb_id = ''R6TD9J5RHA'',
      model_id = ''arn:aws:bedrock:us-east-1::foundation-model/amazon.titan-text-express-v1'',
      prompt_engine = True\<rparr>"

definition profile_config :: config where
  "profile_config =
     \<lparr>region = ''us-east-1'', kb_id = ''R6TD9J5RHA'',
      model_id = ''arn:aws:bedrock:us-east-1:123456789012:inference-profile/us.anthropic.claude-3-5-sonnet-20241022-v2:0'',
      prompt_engine = True\<rparr>"

definition auth_error :: py_exception where
  "auth_error =
     ClientError
       (Some \<lparr>Code = Some ''UnrecognizedClientException'',
              Message = Some ''The security token included in the request is invalid.''\<rparr>)
       ''An error occurred (UnrecognizedClientException) when calling the RetrieveAndGenerate operation: The security token included in the request is invalid.''"

definition model_error :: py_exception where
  "model_error =
     ClientError
       (Some \<lparr>Code = Some ''ValidationException'', Message = Some ''model identifier invalid''\<rparr>)
       ''An error occurred (ValidationException) when calling the RetrieveAndGenerate operation: model identifier invalid''"

definition session_response :: response where
  "session_response = \<lparr>output_text = Some ''X is a thing.'', response_sessionId = Some ''session-1''\<rparr>"

definition sessionless_response :: response where
  "sessionless_response = \<lparr>output_text = Some ''X is a thing.'', response_sessionId = None\<rparr>"

definition provider_raising :: "py_exception \<Rightarrow> provider" where
  "provider_raising e n p = Inl e"

definition provider_returning :: "response \<Rightarrow> provider" where
  "provider_returning resp n p = Inr resp"

definition provider_accepting :: "string \<Rightarrow> response \<Rightarrow> provider" where
  "provider_accepting arn resp n p =
     (if request_model_arn p = arn then Inr resp else Inl model_error)"

section \<open>Facts about the string operations\<close>

lemma str_in_sublist: "str_in w s \<longleftrightarrow> sublist w s"
  by (induction s) (auto simp: sublist_Cons_right)

lemma list_ex_str_in: "list_ex (\<lambda>w. str_in w s) kws \<longleftrightarrow> (\<exists>w\<in>set kws. sublist w s)"
  by (simp add: list_ex_iff str_in_sublist)

section \<open>The query classifier\<close>

lemma detect_query_type_cases:
  "detect_query_type q =
     (if kw_match technical_keywords q then ''technical''
      else if kw_match summary_keywords q then ''summary''
      else if kw_match comparison_keywords q then ''comparison''
      else ''general'')"
  by (simp add: detect_query_type_def Let_def list_ex_str_in kw_match_def)

lemma kw_match_code: "kw_match kws q = list_ex (\<lambda>w. str_in w (lower q)) kws"
  by (simp add: kw_match_def list_ex_str_in)

text \<open>
  Claim C6. The classifier returns one of the four types for every question, decided by
  which keyword lists have a word occurring in the lower-cased question: technical
  first, then summary, then comparison, and general when none matches. Two questions
  that agree up to the case of their letters get the same type.
\<close>

theorem detect_query_type_precedence:
  "detect_query_type q \<in> {''general'', ''technical'', ''summary'', ''comparison''} \<and>
   (kw_match technical_keywords q \<longrightarrow> detect_query_type q = ''technical'') \<and>
   (\<not> kw_match technical_keywords q \<and> kw_match summary_keywords q
      \<longrightarrow> detect_query_type q = ''summary'') \<and>
   (\<not> kw_match technical_keywords q \<and> \<not> kw_match summary_keywords q \<and>
    kw_match comparison_keywords q \<longrightarrow> detect_query_type q = ''comparison'') \<and>
   (\<not> kw_match technical_keywords q \<and> \<not> kw_match summary_keywords q \<and>
    \<not> kw_match comparison_keywords q \<longrightarrow> detect_query_type q = ''general'') \<and>
   (\<forall>q'. lower q' = lower q \<longrightarrow> detect_query_type q' = detect_query_type q)"
  by (simp add: detect_query_type_cases kw_match_def)

theorem detect_query_type_precedence_witness:
  "kw_match technical_keywords ''How do I summarize and compare?'' \<and>
   kw_match summary_keywords ''How do I summarize and compare?'' \<and>
   kw_match comparison_keywords ''How do I summarize and compare?'' \<and>
   detect_query_type ''How do I summarize and compare?'' = ''technical'' \<and>
   \<not> kw_match technical_keywords ''A brief summary, versus the rest'' \<and>
   kw_match summary_keywords ''A brief summary, versus the rest'' \<and>
   detect_query_type ''A brief summary, versus the rest'' = ''summary'' \<and>
   \<not> kw_match technical_keywords ''Which one is better?'' \<and>
   \<not> kw_match summary_keywords ''Which one is better?'' \<and>
   kw_match comparison_keywords ''Which one is better?'' \<and>
   detect_query_type ''Which one is better?'' = ''comparison'' \<and>
   \<not> kw_match technical_keywords ''What is X?'' \<and>
   \<not> kw_match summary_keywords ''What is X?'' \<and>
   \<not> kw_match comparison_keywords ''What is X?'' \<and>
   detect_query_type ''What is X?'' = ''general'' \<and>
   lower ''HOW DO I SUMMARIZE AND COMPARE?'' = lower ''How do I summarize and compare?'' \<and>
   detect_query_type ''HOW DO I SUMMARIZE AND COMPARE?'' = ''technical''"
proof -
  have t1: "kw_match technical_keywords ''How do I summarize and compare?''"
    unfolding kw_match_code by code_simp
  have s1: "kw_match summary_keywords ''How do I summarize and compare?''"
    unfolding kw_match_code by code_simp
  have c1: "kw_match comparison_keywords ''How do I summarize and compare?''"
    unfolding kw_match_code by code_simp
  have t2: "\<not> kw_match technical_keywords ''A brief summary, versus the rest''"
    unfolding kw_match_code by code_simp
  have s2: "kw_match summary_keywords ''A brief summary, versus the rest''"
    unfolding kw_match_code by code_simp
  have t3: "\<not> kw_match technical_keywords ''Which one is better?''"
    unfolding kw_match_code by code_simp
  have s3: "\<not> kw_match summary_keywords ''Which one is better?''"
    unfolding kw_match_code by code_simp
  have c3: "kw_match comparison_keywords ''Which one is better?''"
    unfolding kw_match_code by code_simp
  have t4: "\<not> kw_match technical_keywords ''What is X?''"
    unfolding kw_match_code by code_simp
  have s4: "\<not> kw_match summary_keywords ''What is X?''"
    unfolding kw_match_code by code_simp
  have c4: "\<not> kw_match comparison_keywords ''What is X?''"
    unfolding kw_match_code by code_simp
  have l: "lower ''HOW DO I SUMMARIZE AND COMPARE?'' = lower ''How do I summarize and compare?''"
    by code_simp
  note p1 = detect_query_type_precedence [of "''How do I summarize and compare?''"]
  note p2 = detect_query_type_precedence [of "''A brief summary, versus the rest''"]
  note p3 = detect_query_type_precedence [of "''Which one is better?''"]
  note p4 = detect_query_type_precedence [of "''What is X?''"]
  have r1: "detect_query_type ''How do I summarize and compare?'' = ''technical''"
    using p1 t1 by blast
  have r2: "detect_query_type ''A brief summary, versus the rest'' = ''summary''"
    using p2 t2 s2 by blast
  have r3: "detect_query_type ''Which one is better?'' = ''comparison''"
    using p3 t3 s3 c3 by blast
  have r4: "detect_query_type ''What is X?'' = ''general''"
    using p4 t4 s4 c4 by blast
  have r5: "detect_query_type ''HOW DO I SUMMARIZE AND COMPARE?'' = ''technical''"
    using p1 l r1 by metis
  show ?thesis
    using t1 s1 c1 r1 t2 s2 r2 t3 s3 c3 r3 t4 s4 c4 r4 l r5 by blast
qed

text \<open>
  Claim C10. Keywords are matched as raw substrings, not as words: a question whose
  lower-cased text contains \<open>how\<close> anywhere, also inside a longer word, is technical;
  one that contains \<open>vs\<close> anywhere is a comparison unless a technical or a summary
  keyword occurs as well.
\<close>

theorem detect_query_type_substring:
  "(sublist ''how'' (lower q) \<longrightarrow> detect_query_type q = ''technical'') \<and>
   (sublist ''vs'' (lower q) \<and> \<not> kw_match technical_keywords q \<and>
    \<not> kw_match summary_keywords q \<longrightarrow> detect_query_type q = ''comparison'')"
proof -
  have "sublist ''how'' (lower q) \<Longrightarrow> kw_match technical_keywords q"
    by (auto simp: kw_match_def technical_keywords_def)
  moreover have "sublist ''vs'' (lower q) \<Longrightarrow> kw_match comparison_keywords q"
    by (auto simp: kw_match_def comparison_keywords_def)
  ultimately show ?thesis
    by (auto simp: detect_query_type_cases)
qed

theorem detect_query_type_substring_witness:
  "sublist ''how'' (lower ''Show me the results'') \<and>
   detect_query_type ''Show me the results'' = ''technical'' \<and>
   sublist ''vs'' (lower ''Which TVs are cheap'') \<and>
   \<not> kw_match technical_keywords ''Which TVs are cheap'' \<and>
   \<not> kw_match summary_keywords ''Which TVs are cheap'' \<and>
   detect_query_type ''Which TVs are cheap'' = ''comparison''"
proof -
  have h1: "sublist ''how'' (lower ''Show me the results'')"
    unfolding str_in_sublist [symmetric] by code_simp
  have h2: "sublist ''vs'' (lower ''Which TVs are cheap'')"
    unfolding str_in_sublist [symmetric] by code_simp
  have t2: "\<not> kw_match technical_keywords ''Which TVs are cheap''"
    unfolding kw_match_code by code_simp
  have s2: "\<not> kw_match summary_keywords ''Which TVs are cheap''"
    unfolding kw_match_code by code_simp
  show ?thesis
    using detect_query_type_substring [of "''Show me the results''"]
      detect_query_type_substring [of "''Which TVs are cheap''"] h1 h2 t2 s2
    by blast
qed

section \<open>The query enhancer\<close>

lemma render_exchange_length: "length (concat (map render_exchange xs)) = 2 * length xs"
  by (induction xs) (simp_all add: render_exchange_def)

lemma enhance_query_nonempty:
  assumes "h \<noteq> []"
  shows "enhance_query q (Some h) =
           ''Context from previous conversation:\<newline>''
           @ join ''\<newline>'' (concat (map render_exchange (drop (length h - 3) h)))
           @ ''\<newline>\<newline>Current question: '' @ q"
proof -
  have "drop (length h - 3) h \<noteq> []" using assms by (cases h) auto
  then have "concat (map render_exchange (drop (length h - 3) h)) \<noteq> []"
    using render_exchange_length [of "drop (length h - 3) h"]
    by (metis length_0_conv mult_is_0 zero_neq_numeral)
  then show ?thesis using assms by (simp add: enhance_query_def Let_def)
qed

text \<open>
  Claim C7. For a non-empty history the enhanced question is the fixed header, then the
  two lines of each of the last three exchanges (of all of them when there are fewer),
  the answer cut to its first 200 characters and followed by three dots, then a blank
  line and \<open>Current question: \<close> with the question itself, which so ends the text.
  Exchanges before the last three play no part.
\<close>

theorem enhance_query_last_three:
  assumes "h \<noteq> []"
  shows "enhance_query q (Some h) =
           ''Context from previous conversation:\<newline>''
           @ join ''\<newline>''
               (concat (map (\<lambda>item.
                  [''Previous question: '' @ dict_get item ''question'' '''',
                   ''Previous answer: '' @ take 200 (dict_get item ''answer'' '''') @ ''...''])
                  (drop (length h - 3) h)))
           @ ''\<newline>\<newline>Current question: '' @ q \<and>
         length (drop (length h - 3) h) = min 3 (length h) \<and>
         suffix (''Current question: '' @ q) (enhance_query q (Some h)) \<and>
         enhance_query q (Some h) = enhance_query q (Some (drop (length h - 3) h))"
proof -
  let ?l = "drop (length h - 3) h"
  have ne: "?l \<noteq> []" using assms by (cases h) auto
  have dd: "drop (length ?l - 3) ?l = ?l" by simp
  have e1: "enhance_query q (Some h) =
           ''Context from previous conversation:\<newline>''
           @ join ''\<newline>'' (concat (map render_exchange ?l))
           @ ''\<newline>\<newline>Current question: '' @ q"
    by (rule enhance_query_nonempty [OF assms])
  have e2: "enhance_query q (Some ?l) = enhance_query q (Some h)"
    unfolding enhance_query_nonempty [OF ne] e1 dd ..
  have r: "render_exchange = (\<lambda>item.
                  [''Previous question: '' @ dict_get item ''question'' '''',
                   ''Previous answer: '' @ take 200 (dict_get item ''answer'' '''') @ ''...''])"
    by (rule ext) (simp add: render_exchange_def)
  have s: "suffix (''Current question: '' @ q) (enhance_query q (Some h))"
    unfolding e1 suffix_def
    by (rule exI [of _ "''Context from previous conversation:\<newline>''
           @ join ''\<newline>'' (concat (map render_exchange ?l)) @ ''\<newline>\<newline>''"]) simp
  show ?thesis using e1 e2 s unfolding r by (simp add: min_def)
qed

theorem enhance_query_last_three_witness:
  "[[''question'' \<mapsto> ''q1'', ''answer'' \<mapsto> ''a1''],
    [''question'' \<mapsto> ''q2'', ''answer'' \<mapsto> replicate 250 CHR ''x''],
    Map.empty,
    [''question'' \<mapsto> ''q4'', ''answer'' \<mapsto> ''a4'']] \<noteq> ([] :: exchange list) \<and>
   enhance_query ''now?''
     (Some [[''question'' \<mapsto> ''q1'', ''answer'' \<mapsto> ''a1''],
            [''question'' \<mapsto> ''q2'', ''answer'' \<mapsto> replicate 250 CHR ''x''],
            Map.empty,
            [''question'' \<mapsto> ''q4'', ''answer'' \<mapsto> ''a4'']]) =
     ''Context from previous conversation:\<newline>''
     @ ''Previous question: q2\<newline>''
     @ ''Previous answer: '' @ replicate 200 CHR ''x'' @ ''...\<newline>''
     @ ''Previous question: \<newline>''
     @ ''Previous answer: ...\<newline>''
     @ ''Previous question: q4\<newline>''
     @ ''Previous answer: a4...\<newline>''
     @ ''\<newline>''
     @ ''Current question: now?''"
proof -
  have ne: "[[''question'' \<mapsto> ''q1'', ''answer'' \<mapsto> ''a1''],
    [''question'' \<mapsto> ''q2'', ''answer'' \<mapsto> replicate 250 CHR ''x''],
    Map.empty,
    [''question'' \<mapsto> ''q4'', ''answer'' \<mapsto> ''a4'']] \<noteq> ([] :: exchange list)" by simp
  have t: "take 200 (replicate 250 CHR ''x'') = replicate 200 CHR ''x''" by simp
  show ?thesis
    using enhance_query_last_three [OF ne, of "''now?''"]
    by (simp add: dict_get_def t)
qed

section \<open>The retry loop and the structure of \<open>query\<close>\<close>

lemma strip_nonempty: "\<not> is_space c \<Longrightarrow> strip (c # cs) \<noteq> []"
  by (auto simp: strip_def dropWhile_eq_Nil_conv)

lemma set_model_arn_twice: "set_model_arn (set_model_arn p a) b = set_model_arn p b"
  by (cases "retrieveAndGenerateConfiguration p") (simp_all add: set_model_arn_def)

lemma set_model_arn_sessionId: "sessionId (set_model_arn p a) = sessionId p"
  by (simp add: set_model_arn_def)

lemma set_model_arn_input: "input_text (set_model_arn p a) = input_text p"
  by (simp add: set_model_arn_def)

lemma set_model_arn_config:
  "retrieveAndGenerateConfiguration p = Some c \<Longrightarrow>
   retrieveAndGenerateConfiguration (set_model_arn p a) = Some (c\<lparr>modelArn := a\<rparr>)"
  by (simp add: set_model_arn_def)

lemma retry_loop_Cons:
  "retry_loop prov n p (a # as) =
     (case prov n (set_model_arn p a) of
        Inr resp \<Rightarrow> (Some resp, set_model_arn p a, [set_model_arn p a])
      | Inl e \<Rightarrow>
          (fst (retry_loop prov (Suc n) (set_model_arn p a) as),
           fst (snd (retry_loop prov (Suc n) (set_model_arn p a) as)),
           set_model_arn p a # snd (snd (retry_loop prov (Suc n) (set_model_arn p a) as))))"
  by (simp add: Let_def split: sum.split prod.split)

lemma retry_loop_sent_map:
  "snd (snd (retry_loop prov n p as)) =
     map (set_model_arn p) (take (length (snd (snd (retry_loop prov n p as)))) as)"
proof (induction as arbitrary: n p)
  case Nil
  show ?case by simp
next
  case (Cons a as)
  show ?case
  proof (cases "prov n (set_model_arn p a)")
    case (Inr resp)
    then show ?thesis by (simp add: retry_loop_Cons del: retry_loop.simps)
  next
    case (Inl e)
    have "snd (snd (retry_loop prov (Suc n) (set_model_arn p a) as)) =
       map (set_model_arn p)
         (take (length (snd (snd (retry_loop prov (Suc n) (set_model_arn p a) as)))) as)"
      using Cons.IH [of "Suc n" "set_model_arn p a"] by (simp add: set_model_arn_twice)
    then show ?thesis using Inl by (simp add: retry_loop_Cons del: retry_loop.simps)
  qed
qed

lemma retry_loop_sent_length: "length (snd (snd (retry_loop prov n p as))) \<le> length as"
proof (induction as arbitrary: n p)
  case Nil
  show ?case by simp
next
  case (Cons a as)
  show ?case
    using Cons.IH [of "Suc n" "set_model_arn p a"]
    by (cases "prov n (set_model_arn p a)") (simp_all add: retry_loop_Cons del: retry_loop.simps)
qed

lemma retry_loop_None:
  "fst (retry_loop prov n p as) = None \<Longrightarrow>
   length (snd (snd (retry_loop prov n p as))) = length as"
proof (induction as arbitrary: n p)
  case Nil
  show ?case by simp
next
  case (Cons a as)
  show ?case
  proof (cases "prov n (set_model_arn p a)")
    case (Inr resp)
    then show ?thesis using Cons.prems by (simp add: retry_loop_Cons del: retry_loop.simps)
  next
    case (Inl e)
    then have "fst (retry_loop prov (Suc n) (set_model_arn p a) as) = None"
      using Cons.prems by (simp add: retry_loop_Cons del: retry_loop.simps)
    from Cons.IH [OF this] show ?thesis
      using Inl by (simp add: retry_loop_Cons del: retry_loop.simps)
  qed
qed

lemma retry_loop_Some:
  "fst (retry_loop prov n p as) = Some resp \<Longrightarrow>
   snd (snd (retry_loop prov n p as)) \<noteq> [] \<and>
   prov (n + length (snd (snd (retry_loop prov n p as))) - 1)
        (last (snd (snd (retry_loop prov n p as)))) = Inr resp"
proof (induction as arbitrary: n p)
  case Nil
  then show ?case by simp
next
  case (Cons a as)
  show ?case
  proof (cases "prov n (set_model_arn p a)")
    case (Inr r)
    then show ?thesis using Cons.prems by (simp add: retry_loop_Cons del: retry_loop.simps)
  next
    case (Inl e)
    then have "fst (retry_loop prov (Suc n) (set_model_arn p a) as) = Some resp"
      using Cons.prems by (simp add: retry_loop_Cons del: retry_loop.simps)
    from Cons.IH [OF this] show ?thesis
      using Inl by (simp add: retry_loop_Cons del: retry_loop.simps)
  qed
qed

lemma retry_loop_final:
  "fst (snd (retry_loop prov n p as)) =
     (if snd (snd (retry_loop prov n p as)) = [] then p
      else last (snd (snd (retry_loop prov n p as))))"
proof (induction as arbitrary: n p)
  case Nil
  show ?case by simp
next
  case (Cons a as)
  show ?case
  proof (cases "prov n (set_model_arn p a)")
    case (Inr r)
    then show ?thesis by (simp add: retry_loop_Cons del: retry_loop.simps)
  next
    case (Inl e)
    show ?thesis
      using Inl Cons.IH [of "Suc n" "set_model_arn p a"]
      by (simp add: retry_loop_Cons del: retry_loop.simps)
  qed
qed

lemma retry_loop_sessionId: "sessionId (fst (snd (retry_loop prov n p as))) = sessionId p"
proof (induction as arbitrary: n p)
  case Nil
  show ?case by simp
next
  case (Cons a as)
  show ?case
    using Cons.IH [of "Suc n" "set_model_arn p a"]
    by (cases "prov n (set_model_arn p a)")
       (simp_all add: retry_loop_Cons set_model_arn_sessionId del: retry_loop.simps)
qed

lemma strip_Nil [simp]: "strip [] = []"
  by (simp add: strip_def)

lemma invoke_ok:
  "prov 0 p = Inr resp \<Longrightarrow> invoke self prov p = (Inr (resp, p), [p])"
  by (simp add: invoke_def)

lemma invoke_other:
  "prov 0 p = Inl (ValueError m) \<Longrightarrow> invoke self prov p = (Inl (ValueError m), [p])"
  "prov 0 p = Inl (Exception m) \<Longrightarrow> invoke self prov p = (Inl (Exception m), [p])"
  by (simp_all add: invoke_def)

lemma invoke_client_plain:
  assumes "prov 0 p = Inl (ClientError info s)"
    and "\<not> (error_code_of info = ''ValidationException'' \<and>
            is_model_error (error_message_of info s))"
  shows "invoke self prov p =
           (Inl (Exception (aws_error (error_code_of info) (error_message_of info s))), [p])"
  using assms by (auto simp: invoke_def Let_def split: option.split)

lemma invoke_client_retry:
  assumes "prov 0 p = Inl (ClientError info s)"
    and "error_code_of info = ''ValidationException''"
    and "is_model_error (error_message_of info s)"
    and "retrieveAndGenerateConfiguration p = Some c"
  shows "invoke self prov p =
           (case fst (retry_loop prov 1 p (model_arn_attempts self (modelArn c))) of
              Some resp \<Rightarrow>
                (Inr (resp, fst (snd (retry_loop prov 1 p (model_arn_attempts self (modelArn c))))),
                 p # snd (snd (retry_loop prov 1 p (model_arn_attempts self (modelArn c)))))
            | None \<Rightarrow>
                (Inl (Exception
                   (aws_error ''ValidationException'' (error_message_of info s) @ ''. Tried ''
                    @ str_nat (length (model_arn_attempts self (modelArn c)))
                    @ '' alternative model formats, all failed.'')),
                 p # snd (snd (retry_loop prov 1 p (model_arn_attempts self (modelArn c))))))"
  using assms
  by (cases "retry_loop prov 1 p (model_arn_attempts self (modelArn c))")
     (simp add: invoke_def Let_def split: option.split)

lemma invoke_not_ClientError: "fst (invoke self prov p) \<noteq> Inl (ClientError info s)"
proof (cases "prov 0 p")
  case (Inr resp)
  then show ?thesis by (simp add: invoke_ok)
next
  case (Inl e)
  show ?thesis
  proof (cases e)
    case (ValueError m)
    then show ?thesis using Inl by (simp add: invoke_other)
  next
    case (Exception m)
    then show ?thesis using Inl by (simp add: invoke_other)
  next
    case (ClientError info' s')
    show ?thesis
    proof (cases "error_code_of info' = ''ValidationException'' \<and>
                  is_model_error (error_message_of info' s')")
      case False
      then show ?thesis using Inl ClientError by (simp add: invoke_client_plain)
    next
      case True
      show ?thesis
      proof (cases "retrieveAndGenerateConfiguration p")
        case None
        then show ?thesis using Inl ClientError by (simp add: invoke_def Let_def)
      next
        case (Some c)
        show ?thesis
          using invoke_client_retry [of prov p info' s' c self] Inl ClientError True Some
          by (simp split: option.split)
      qed
    qed
  qed
qed

lemma invoke_sent:
  assumes "retrieveAndGenerateConfiguration p = Some c"
  shows "\<exists>k\<le>length (model_arn_attempts self (modelArn c)).
           snd (invoke self prov p) =
             p # map (set_model_arn p) (take k (model_arn_attempts self (modelArn c)))"
proof -
  let ?A = "model_arn_attempts self (modelArn c)"
  have single: "snd (invoke self prov p) = [p] \<Longrightarrow> ?thesis"
    by (intro exI [of _ 0]) simp
  show ?thesis
  proof (cases "prov 0 p")
    case (Inr resp)
    then show ?thesis by (intro single) (simp add: invoke_ok)
  next
    case (Inl e)
    show ?thesis
    proof (cases e)
      case (ValueError m)
      then show ?thesis using Inl by (intro single) (simp add: invoke_other)
    next
      case (Exception m)
      then show ?thesis using Inl by (intro single) (simp add: invoke_other)
    next
      case (ClientError info s)
      show ?thesis
      proof (cases "error_code_of info = ''ValidationException'' \<and>
                    is_model_error (error_message_of info s)")
        case False
        then show ?thesis using Inl ClientError by (intro single) (simp add: invoke_client_plain)
      next
        case True
        let ?sent = "snd (snd (retry_loop prov 1 p ?A))"
        have "snd (invoke self prov p) = p # ?sent"
          using invoke_client_retry [of prov p info s c self] Inl ClientError True assms
          by (simp split: option.split)
        moreover have "?sent = map (set_model_arn p) (take (length ?sent) ?A)"
          by (rule retry_loop_sent_map)
        moreover have "length ?sent \<le> length ?A"
          by (rule retry_loop_sent_length)
        ultimately show ?thesis by (intro exI [of _ "length ?sent"]) simp
      qed
    qed
  qed
qed

lemma build_params_config:
  "retrieveAndGenerateConfiguration (build_params self eq sid) =
     Some (build_retrieve_config self (get_model_arn self))"
  by (simp add: build_params_def Let_def split: option.split)

lemma build_params_sessionId:
  "sessionId (build_params self eq sid) =
     (case sid of None \<Rightarrow> None | Some s \<Rightarrow> if s \<noteq> [] then Some s else None)"
  by (simp add: build_params_def Let_def split: option.split)

lemma first_request_config:
  "retrieveAndGenerateConfiguration (first_request self q sid h adv) =
     Some (build_retrieve_config self (get_model_arn self))"
  by (simp add: first_request_def build_params_config)

lemma first_request_sessionId:
  "sessionId (first_request self q sid h adv) =
     (case sid of
        None \<Rightarrow> None
      | Some s \<Rightarrow> if s \<noteq> [] \<and> session_id_matches s then Some s else None)"
  by (simp add: first_request_def build_params_sessionId checked_session_id_def
           split: option.split)

lemma query_invalid:
  assumes "\<not> valid_input self q"
  shows "snd (query self prov q sid h qt adv) = [] \<and>
         (\<exists>m. fst (query self prov q sid h qt adv) = Inl m)"
proof (cases "kb_id self = []")
  case True
  then show ?thesis by (simp add: query_def)
next
  case False
  have "\<exists>m. query_body self prov q sid h qt adv = (Inl (ValueError m), [])"
    using assms False by (auto simp: query_body_def valid_input_def Let_def)
  then show ?thesis using False by (auto simp: query_def)
qed

lemma query_valid:
  assumes "valid_input self q"
  shows "query self prov q sid h qt adv =
           (case invoke self prov (first_request self q sid h adv) of
              (Inl e, sent) \<Rightarrow>
                (Inl (Exception (''Failed to query knowledge base: '' @ str_exception e)), sent)
            | (Inr (resp, p'), sent) \<Rightarrow>
                (Inr (build_result self resp p' (query_type_of self (strip q) qt adv)
                        (enhanced_question_of self (strip q) h adv) (strip q)), sent))"
proof -
  let ?P = "first_request self q sid h adv"
  have ne: "q \<noteq> []" "kb_id self \<noteq> []" "model_id self \<noteq> []"
    using assms by (auto simp: valid_input_def)
  have body: "query_body self prov q sid h qt adv =
           (case invoke self prov ?P of
              (Inl e, sent) \<Rightarrow> (Inl e, sent)
            | (Inr (resp, p'), sent) \<Rightarrow>
                (Inr (build_result self resp p' (query_type_of self (strip q) qt adv)
                        (enhanced_question_of self (strip q) h adv) (strip q)), sent))"
    using assms ne
    by (simp add: query_body_def valid_input_def Let_def first_request_def build_params_config)
  obtain res sent where inv: "invoke self prov ?P = (res, sent)"
    by (cases "invoke self prov ?P") auto
  show ?thesis
  proof (cases res)
    case (Inr rp)
    then show ?thesis using inv ne by (cases rp) (simp add: query_def body)
  next
    case (Inl e)
    have "\<And>info s. e \<noteq> ClientError info s"
      using invoke_not_ClientError [of self prov ?P] inv Inl by auto
    show ?thesis
    proof (cases e)
      case (ValueError m)
      then show ?thesis using inv Inl ne by (simp add: query_def body)
    next
      case (Exception m)
      then show ?thesis using inv Inl ne by (simp add: query_def body)
    next
      case (ClientError info s)
      then show ?thesis using \<open>\<And>info s. e \<noteq> ClientError info s\<close> by blast
    qed
  qed
qed

lemma request_model_arn_set:
  "retrieveAndGenerateConfiguration p = Some c \<Longrightarrow> request_model_arn (set_model_arn p a) = a"
  by (simp add: request_model_arn_def set_model_arn_def)

lemma first_request_model_arn:
  "request_model_arn (first_request self q sid h adv) = strip (get_model_arn self)"
  by (simp add: request_model_arn_def first_request_config build_retrieve_config_def)

lemma foundation_model_arn_inj [simp]:
  "foundation_model_arn self a = foundation_model_arn self b \<longleftrightarrow> a = b"
  by (simp add: foundation_model_arn_def)

lemma foundation_model_arn_nonempty [simp]: "foundation_model_arn self m \<noteq> []"
  by (simp add: foundation_model_arn_def)

lemma str_in_single: "str_in [c] s \<longleftrightarrow> c \<in> set s"
  by (induction s) auto

lemma base_model_id_neq:
  assumes "str_in '':'' m"
  shows "takeWhile (\<lambda>c. c \<noteq> CHR '':'') m \<noteq> m"
    and "takeWhile (\<lambda>c. c \<noteq> CHR '':'') m \<noteq> alt_model"
proof -
  have in_m: "CHR '':'' \<in> set m" using assms by (simp add: str_in_single)
  have notin: "CHR '':'' \<notin> set (takeWhile (\<lambda>c. c \<noteq> CHR '':'') m)"
    using set_takeWhileD by fastforce
  show "takeWhile (\<lambda>c. c \<noteq> CHR '':'') m \<noteq> m" using in_m notin by auto
  have "CHR '':'' \<in> set alt_model" by (simp add: alt_model_def)
  then show "takeWhile (\<lambda>c. c \<noteq> CHR '':'') m \<noteq> alt_model" using notin by auto
qed

lemma model_arn_attempts_filter:
  "model_arn_attempts self cur =
     filter (\<lambda>a. a \<noteq> cur)
       ([foundation_model_arn self (model_id self)]
        @ (if str_in ''claude-3-5-sonnet'' (lower (model_id self)) \<and> alt_model \<noteq> model_id self
           then [foundation_model_arn self alt_model] else [])
        @ (if str_in '':'' (model_id self)
           then [foundation_model_arn self (takeWhile (\<lambda>c. c \<noteq> CHR '':'') (model_id self))]
           else []))"
proof -
  define b where "b = takeWhile (\<lambda>c. c \<noteq> CHR '':'') (model_id self)"
  have nb: "str_in '':'' (model_id self) \<Longrightarrow> b \<noteq> model_id self \<and> b \<noteq> alt_model"
    using base_model_id_neq [of "model_id self"] unfolding b_def by blast
  show ?thesis
    unfolding model_arn_attempts_def Let_def b_def [symmetric]
    using nb by auto
qed

lemma model_arn_attempts_distinct: "distinct (model_arn_attempts self cur)"
proof -
  define b where "b = takeWhile (\<lambda>c. c \<noteq> CHR '':'') (model_id self)"
  show ?thesis
    unfolding model_arn_attempts_def Let_def b_def [symmetric] by auto
qed

lemma model_arn_attempts_not_current: "cur \<notin> set (model_arn_attempts self cur)"
  by (auto simp: model_arn_attempts_def Let_def)

lemma model_arn_attempts_nonempty: "a \<in> set (model_arn_attempts self cur) \<Longrightarrow> a \<noteq> []"
  by (auto simp: model_arn_attempts_filter foundation_model_arn_def split: if_splits)

lemma get_model_arn_strip:
  "strip (model_id self) \<noteq> [] \<Longrightarrow> strip (get_model_arn self) \<noteq> []"
  by (auto simp: get_model_arn_def foundation_model_arn_def strip_nonempty is_space_def)

lemma query_sent:
  assumes "valid_input self q"
  shows "\<exists>k\<le>length (model_arn_attempts self (strip (get_model_arn self))).
           snd (query self prov q sid h qt adv) =
             first_request self q sid h adv
             # map (set_model_arn (first_request self q sid h adv))
                 (take k (model_arn_attempts self (strip (get_model_arn self))))"
proof -
  let ?P = "first_request self q sid h adv"
  have "snd (query self prov q sid h qt adv) = snd (invoke self prov ?P)"
    unfolding query_valid [OF assms]
    by (cases "invoke self prov ?P") (auto split: sum.split prod.split)
  moreover have "modelArn (build_retrieve_config self (get_model_arn self)) =
                 strip (get_model_arn self)"
    by (simp add: build_retrieve_config_def)
  ultimately show ?thesis
    using invoke_sent [where p = "?P" and self = self and prov = prov
        and c = "build_retrieve_config self (get_model_arn self)", OF first_request_config]
    by simp
qed

lemma query_nonempty_valid:
  "snd (query self prov q sid h qt adv) \<noteq> [] \<Longrightarrow> valid_input self q"
  using query_invalid [of self q prov sid h qt adv] by blast

lemma map_request_model_arn:
  assumes "retrieveAndGenerateConfiguration p = Some c"
  shows "map request_model_arn (map (set_model_arn p) as) = as"
  by (induction as) (simp_all add: request_model_arn_set [OF assms])

lemma enhanced_question_nonempty:
  "question \<noteq> [] \<Longrightarrow> enhanced_question_of self question h adv \<noteq> []"
  by (simp add: enhanced_question_of_def Let_def)

lemma first_request_input:
  "valid_input self q \<Longrightarrow> input_text (first_request self q sid h adv) \<noteq> []"
  by (simp add: first_request_def build_params_def Let_def valid_input_def
        enhanced_question_nonempty split: option.split)

lemma query_success:
  assumes "query self prov q sid h qt adv = (Inr r, sent)"
  shows "\<exists>resp. sent \<noteq> [] \<and> hd sent = first_request self q sid h adv \<and>
           prov (length sent - 1) (last sent) = Inr resp \<and>
           r = build_result self resp (last sent) (query_type_of self (strip q) qt adv)
                 (enhanced_question_of self (strip q) h adv) (strip q) \<and>
           sessionId (last sent) = sessionId (first_request self q sid h adv)"
proof -
  let ?P = "first_request self q sid h adv"
  let ?c = "build_retrieve_config self (get_model_arn self)"
  let ?A = "model_arn_attempts self (modelArn ?c)"
  let ?R = "retry_loop prov 1 ?P ?A"
  have valid: "valid_input self q"
    using query_invalid [of self q prov sid h qt adv] assms by (cases "valid_input self q") auto
  note qv = query_valid [OF valid, of prov sid h qt adv]
  show ?thesis
  proof (cases "prov 0 ?P")
    case (Inr resp)
    then show ?thesis using qv assms by (intro exI [of _ resp]) (auto simp: invoke_ok)
  next
    case (Inl e)
    show ?thesis
    proof (cases e)
      case (ValueError m)
      then show ?thesis using qv assms Inl by (simp add: invoke_other)
    next
      case (Exception m)
      then show ?thesis using qv assms Inl by (simp add: invoke_other)
    next
      case (ClientError info s)
      show ?thesis
      proof (cases "error_code_of info = ''ValidationException'' \<and>
                    is_model_error (error_message_of info s)")
        case False
        then show ?thesis using qv assms Inl ClientError by (simp add: invoke_client_plain)
      next
        case True
        note inv = invoke_client_retry [where self = self and c = ?c, OF _ _ _ first_request_config,
                     of prov q sid h adv info s]
        have inv': "invoke self prov ?P =
           (case fst ?R of
              Some resp \<Rightarrow> (Inr (resp, fst (snd ?R)), ?P # snd (snd ?R))
            | None \<Rightarrow>
                (Inl (Exception
                   (aws_error ''ValidationException'' (error_message_of info s) @ ''. Tried ''
                    @ str_nat (length ?A) @ '' alternative model formats, all failed.'')),
                 ?P # snd (snd ?R)))"
          using inv Inl ClientError True by simp
        show ?thesis
        proof (cases "fst ?R")
          case None
          then show ?thesis using qv assms inv' by simp
        next
          case (Some resp)
          have r: "r = build_result self resp (fst (snd ?R)) (query_type_of self (strip q) qt adv)
                 (enhanced_question_of self (strip q) h adv) (strip q)"
            and sent: "sent = ?P # snd (snd ?R)"
            using qv assms inv' Some by simp_all
          have ne: "snd (snd ?R) \<noteq> []"
            and call: "prov (1 + length (snd (snd ?R)) - 1) (last (snd (snd ?R))) = Inr resp"
            using retry_loop_Some [OF Some] by simp_all
          have fin: "fst (snd ?R) = last (snd (snd ?R))"
            using retry_loop_final [of prov 1 ?P ?A] ne by simp
          have sid: "sessionId (fst (snd ?R)) = sessionId ?P"
            by (rule retry_loop_sessionId)
          show ?thesis
            using r sent ne call fin sid by (intro exI [of _ resp]) simp
        qed
      qed
    qed
  qed
qed

lemma query_hd_sent:
  assumes "snd (query self prov q sid h qt adv) = p # rest"
  shows "valid_input self q \<and> p = first_request self q sid h adv \<and>
         (\<exists>k\<le>length (model_arn_attempts self (strip (get_model_arn self))).
            rest = map (set_model_arn p)
                     (take k (model_arn_attempts self (strip (get_model_arn self)))))"
proof -
  have valid: "valid_input self q"
    using query_nonempty_valid [of self prov q sid h qt adv] assms by simp
  from query_sent [OF valid, of prov sid h qt adv] assms show ?thesis
    using valid by auto
qed

lemma query_retry_failure:
  assumes q: "query self prov q sid h qt adv = (Inl e, p # rest)"
    and first: "prov 0 p = Inl (ClientError info s)"
    and code: "error_code_of info = ''ValidationException''"
    and model: "is_model_error (error_message_of info s)"
  shows "e = Exception (''Failed to query knowledge base: ''
                @ aws_error ''ValidationException'' (error_message_of info s) @ ''. Tried ''
                @ str_nat (length (model_arn_attempts self (request_model_arn p)))
                @ '' alternative model formats, all failed.'') \<and>
         map request_model_arn rest = model_arn_attempts self (request_model_arn p)"
proof -
  let ?P = "first_request self q sid h adv"
  let ?c = "build_retrieve_config self (get_model_arn self)"
  let ?A = "model_arn_attempts self (modelArn ?c)"
  let ?R = "retry_loop prov 1 ?P ?A"
  have hd: "valid_input self q" "p = ?P"
    using query_hd_sent [of self prov q sid h qt adv p rest] q by simp_all
  have arn: "request_model_arn p = modelArn ?c"
    using hd(2) by (simp add: request_model_arn_def first_request_config)
  note qv = query_valid [OF hd(1), of prov sid h qt adv]
  have inv: "invoke self prov ?P =
           (case fst ?R of
              Some resp \<Rightarrow> (Inr (resp, fst (snd ?R)), ?P # snd (snd ?R))
            | None \<Rightarrow>
                (Inl (Exception
                   (aws_error ''ValidationException'' (error_message_of info s) @ ''. Tried ''
                    @ str_nat (length ?A) @ '' alternative model formats, all failed.'')),
                 ?P # snd (snd ?R)))"
    using invoke_client_retry [where self = self and c = ?c and p = ?P and prov = prov
            and info = info and s = s] first code model hd(2)
    by (simp add: first_request_config)
  show ?thesis
  proof (cases "fst ?R")
    case (Some resp)
    then show ?thesis using qv q inv by simp
  next
    case None
    have e: "e = Exception (''Failed to query knowledge base: ''
                @ aws_error ''ValidationException'' (error_message_of info s) @ ''. Tried ''
                @ str_nat (length ?A) @ '' alternative model formats, all failed.'')"
      and rest: "rest = snd (snd ?R)"
      using qv q inv None by simp_all
    have len: "length (snd (snd ?R)) = length ?A"
      by (rule retry_loop_None [OF None])
    have "snd (snd ?R) = map (set_model_arn ?P) (take (length (snd (snd ?R))) ?A)"
      by (rule retry_loop_sent_map)
    then have "rest = map (set_model_arn ?P) ?A"
      using len rest by simp
    then have "map request_model_arn rest = ?A"
      by (simp only: map_request_model_arn [OF first_request_config])
    then show ?thesis using e arn by simp
  qed
qed

section \<open>Properties of \<open>query\<close>\<close>

text \<open>
  Claim C4. The alternatives proposed after a model-related validation failure are, in
  this order, the foundation-model form of the configured id, the foundation-model form
  of the sibling identifier when the configured id is of the family and is not the
  sibling itself, and the foundation-model form of the text of the configured id before
  its first colon when it has a colon; the identifier just attempted is left out and no
  entry occurs twice. The identifiers \<open>query\<close> sends are the first one followed by
  an initial part of this list, so no identifier is sent twice in a call.

  The third candidate is cut at the first colon, not at the version suffix. For a
  configured id that is itself a resource name, which \<open>get_model_arn\<close> accepts, the
  text before the first colon is \<open>arn\<close>: in the run below, with an inference-profile
  resource name configured and every call rejected, the last identifier sent is
  \<open>arn:aws:bedrock:us-east-1::foundation-model/arn\<close>, not the configured id without its
  trailing \<open>:0\<close>.
\<close>

theorem model_arn_attempts_cut_at_first_colon:
  "map request_model_arn
     (snd (query profile_config (provider_raising model_error) ''What is X?'' None None None
             True)) =
     [''arn:aws:bedrock:us-east-1:123456789012:inference-profile/us.anthropic.claude-3-5-sonnet-20241022-v2:0'',
      ''arn:aws:bedrock:us-east-1::foundation-model/arn:aws:bedrock:us-east-1:123456789012:inference-profile/us.anthropic.claude-3-5-sonnet-20241022-v2:0'',
      ''arn:aws:bedrock:us-east-1::foundation-model/anthropic.claude-3-5-sonnet-20240620-v1:0'',
      ''arn:aws:bedrock:us-east-1::foundation-model/arn''] \<and>
   model_arn_attempts self cur =
     filter (\<lambda>a. a \<noteq> cur)
       ([''arn:aws:bedrock:'' @ region self @ ''::foundation-model/'' @ model_id self]
        @ (if str_in ''claude-3-5-sonnet'' (lower (model_id self)) \<and>
              model_id self \<noteq> ''anthropic.claude-3-5-sonnet-20240620-v1:0''
           then [''arn:aws:bedrock:'' @ region self
                 @ ''::foundation-model/anthropic.claude-3-5-sonnet-20240620-v1:0'']
           else [])
        @ (if str_in '':'' (model_id self)
           then [''arn:aws:bedrock:'' @ region self @ ''::foundation-model/''
                 @ takeWhile (\<lambda>c. c \<noteq> CHR '':'') (model_id self)]
           else [])) \<and>
   cur \<notin> set (model_arn_attempts self cur) \<and>
   distinct (model_arn_attempts self cur) \<and>
   prefix (map request_model_arn (snd (query self prov q sid h qt adv)))
     (strip (get_model_arn self) # model_arn_attempts self (strip (get_model_arn self))) \<and>
   distinct (map request_model_arn (snd (query self prov q sid h qt adv)))"
proof -
  let ?cur = "strip (get_model_arn self)"
  let ?A = "model_arn_attempts self ?cur"
  let ?sent = "snd (query self prov q sid h qt adv)"
  have run: "map request_model_arn
     (snd (query profile_config (provider_raising model_error) ''What is X?'' None None None
             True)) =
     [''arn:aws:bedrock:us-east-1:123456789012:inference-profile/us.anthropic.claude-3-5-sonnet-20241022-v2:0'',
      ''arn:aws:bedrock:us-east-1::foundation-model/arn:aws:bedrock:us-east-1:123456789012:inference-profile/us.anthropic.claude-3-5-sonnet-20241022-v2:0'',
      ''arn:aws:bedrock:us-east-1::foundation-model/anthropic.claude-3-5-sonnet-20240620-v1:0'',
      ''arn:aws:bedrock:us-east-1::foundation-model/arn'']"
    by code_simp
  have sent: "prefix (map request_model_arn ?sent) (?cur # ?A) \<and>
              distinct (map request_model_arn ?sent)"
  proof (cases "valid_input self q")
    case False
    then show ?thesis using query_invalid [of self q prov sid h qt adv] by simp
  next
    case True
    let ?P = "first_request self q sid h adv"
    obtain k where k: "?sent = ?P # map (set_model_arn ?P) (take k ?A)"
      using query_sent [OF True, of prov sid h qt adv] by blast
    have arns: "map request_model_arn ?sent = ?cur # take k ?A"
      unfolding k
      by (simp add: first_request_model_arn map_request_model_arn [OF first_request_config]
            del: map_map)
    have "distinct (?cur # take k ?A)"
      using model_arn_attempts_distinct [of self ?cur]
        model_arn_attempts_not_current [of ?cur self]
      by (auto dest: in_set_takeD)
    then show ?thesis unfolding arns by (simp add: take_is_prefix)
  qed
  have list: "model_arn_attempts self cur =
     filter (\<lambda>a. a \<noteq> cur)
       ([''arn:aws:bedrock:'' @ region self @ ''::foundation-model/'' @ model_id self]
        @ (if str_in ''claude-3-5-sonnet'' (lower (model_id self)) \<and>
              model_id self \<noteq> ''anthropic.claude-3-5-sonnet-20240620-v1:0''
           then [''arn:aws:bedrock:'' @ region self
                 @ ''::foundation-model/anthropic.claude-3-5-sonnet-20240620-v1:0'']
           else [])
        @ (if str_in '':'' (model_id self)
           then [''arn:aws:bedrock:'' @ region self @ ''::foundation-model/''
                 @ takeWhile (\<lambda>c. c \<noteq> CHR '':'') (model_id self)]
           else []))"
  proof -
    have c: "(alt_model \<noteq> model_id self) =
             (model_id self \<noteq> ''anthropic.claude-3-5-sonnet-20240620-v1:0'')"
      unfolding alt_model_def by (rule arg_cong [of _ _ Not]) (rule eq_commute)
    have f: "foundation_model_arn self alt_model =
             ''arn:aws:bedrock:'' @ region self
             @ ''::foundation-model/anthropic.claude-3-5-sonnet-20240620-v1:0''"
      by (simp add: foundation_model_arn_def alt_model_def)
    show ?thesis
      unfolding model_arn_attempts_filter [of self cur] c f
      unfolding foundation_model_arn_def ..
  qed
  show ?thesis
    using run list model_arn_attempts_not_current [of cur self]
      model_arn_attempts_distinct [of self cur] sent
    by blast
qed

text \<open>
  Claim C5, as the code has it. A configured model id that starts with
  \<open>arn:aws:bedrock:\<close> is returned as it is, with or without an inference-profile
  marker; every other id is put verbatim, version suffix included, behind
  \<open>arn:aws:bedrock:<region>::foundation-model/\<close>.
\<close>

theorem get_model_arn_resolution:
  "(prefix ''arn:aws:bedrock:'' (model_id self) \<longrightarrow> get_model_arn self = model_id self) \<and>
   (\<not> prefix ''arn:aws:bedrock:'' (model_id self) \<longrightarrow>
      get_model_arn self =
        ''arn:aws:bedrock:'' @ region self @ ''::foundation-model/'' @ model_id self)"
  by (simp add: get_model_arn_def foundation_model_arn_def)

theorem get_model_arn_resolution_witness:
  "prefix ''arn:aws:bedrock:'' (model_id profile_config) \<and>
   str_in '':inference-profile/'' (model_id profile_config) \<and>
   get_model_arn profile_config =
     ''arn:aws:bedrock:us-east-1:123456789012:inference-profile/us.anthropic.claude-3-5-sonnet-20241022-v2:0'' \<and>
   \<not> prefix ''arn:aws:bedrock:'' (model_id example_config) \<and>
   get_model_arn example_config =
     ''arn:aws:bedrock:us-east-1::foundation-model/openai.gpt-oss-120b-1:0''"
proof -
  have p: "prefix ''arn:aws:bedrock:'' (model_id profile_config)"
    by (simp add: profile_config_def)
  have m: "str_in '':inference-profile/'' (model_id profile_config)"
    by code_simp
  have n: "\<not> prefix ''arn:aws:bedrock:'' (model_id example_config)"
    by (simp add: example_config_def)
  have "get_model_arn profile_config = model_id profile_config"
    using get_model_arn_resolution [of profile_config] p by blast
  moreover have "get_model_arn example_config =
      ''arn:aws:bedrock:'' @ region example_config @ ''::foundation-model/''
      @ model_id example_config"
    using get_model_arn_resolution [of example_config] n by blast
  ultimately show ?thesis
    using p m n by (simp add: profile_config_def example_config_def)
qed

text \<open>
  The claim as stated fails for a configured id that is already a foundation-model
  resource name: it has no inference-profile marker, and it is returned as it is, not
  put behind a second prefix.
\<close>

theorem get_model_arn_counterexample:
  "\<not> str_in '':inference-profile/'' (model_id arn_config) \<and>
   get_model_arn arn_config = model_id arn_config \<and>
   get_model_arn arn_config \<noteq> foundation_model_arn arn_config (model_id arn_config)"
  by code_simp



text \<open>
  Claim C8. Every request \<open>query\<close> sends, the first one and each retry, carries the
  configuration block: the type \<open>KNOWLEDGE_BASE\<close>, the stripped knowledge-base id (not
  empty), a model identifier (not empty), \<open>numberOfResults = 5\<close> and the two prompt
  templates, each with the text written out below. The input text of the request is not
  empty, and the request carries the session id that was given, when that passed the
  format check, and none otherwise.
\<close>

theorem query_requests_configured:
  "\<forall>p\<in>set (snd (query self prov q sid h qt adv)).
     (\<exists>c. retrieveAndGenerateConfiguration p = Some c \<and>
          config_type c = ''KNOWLEDGE_BASE'' \<and>
          knowledgeBaseId c = strip (kb_id self) \<and> knowledgeBaseId c \<noteq> [] \<and>
          modelArn c \<noteq> [] \<and> numberOfResults c = 5 \<and>
          orchestrationPromptTemplate c = orchestration_template \<and>
          orchestrationPromptTemplate c =
            ''Review the following retrieved documents and prepare a comprehensive context to help answer the user's question. Organize the information logically and include all relevant details.\<newline>\<newline>Retrieved Documents:\<newline>$search_results$\<newline>\<newline>User Question:\<newline>$query$\<newline>\<newline>Conversation History:\<newline>$conversation_history$\<newline>\<newline>Output Format Instructions:\<newline>$output_format_instructions$\<newline>\<newline>Organized Context:'' \<and>
          generationPromptTemplate c = generation_template \<and>
          generationPromptTemplate c =
            ''Use the following pieces of context to answer the question at the end. If you don't know the answer, just say that you don't know, don't try to make up an answer.\<newline>\<newline>Context:\<newline>$search_results$\<newline>\<newline>Question: $query$\<newline>\<newline>Answer:'') \<and>
     input_text p \<noteq> [] \<and>
     sessionId p =
       (case sid of
          None \<Rightarrow> None
        | Some s \<Rightarrow> if s \<noteq> [] \<and> session_id_matches s then Some s else None)"
proof (rule ballI, goal_cases)
  case (1 p)
  let ?P = "first_request self q sid h adv"
  let ?c = "build_retrieve_config self (get_model_arn self)"
  let ?A = "model_arn_attempts self (strip (get_model_arn self))"
  note mem = 1
  then have "snd (query self prov q sid h qt adv) \<noteq> []" by auto
  then have valid: "valid_input self q" by (rule query_nonempty_valid)
  obtain k where k: "snd (query self prov q sid h qt adv) =
      ?P # map (set_model_arn ?P) (take k ?A)"
    using query_sent [OF valid, of prov sid h qt adv] by blast
  have kb: "strip (kb_id self) \<noteq> []" and arn: "strip (get_model_arn self) \<noteq> []"
    using valid by (simp_all add: valid_input_def get_model_arn_strip)
  have first: "retrieveAndGenerateConfiguration ?P = Some ?c" "input_text ?P \<noteq> []"
    "sessionId ?P =
       (case sid of
          None \<Rightarrow> None
        | Some s \<Rightarrow> if s \<noteq> [] \<and> session_id_matches s then Some s else None)"
    using valid by (simp_all add: first_request_config first_request_input first_request_sessionId)
  have orch: "orchestration_template =
            ''Review the following retrieved documents and prepare a comprehensive context to help answer the user's question. Organize the information logically and include all relevant details.\<newline>\<newline>Retrieved Documents:\<newline>$search_results$\<newline>\<newline>User Question:\<newline>$query$\<newline>\<newline>Conversation History:\<newline>$conversation_history$\<newline>\<newline>Output Format Instructions:\<newline>$output_format_instructions$\<newline>\<newline>Organized Context:''"
    by (simp add: orchestration_template_def)
  have gen: "generation_template =
            ''Use the following pieces of context to answer the question at the end. If you don't know the answer, just say that you don't know, don't try to make up an answer.\<newline>\<newline>Context:\<newline>$search_results$\<newline>\<newline>Question: $query$\<newline>\<newline>Answer:''"
    by (simp add: generation_template_def)
  from mem k consider "p = ?P" | a where "a \<in> set ?A" "p = set_model_arn ?P a"
    by (auto dest: in_set_takeD)
  then show ?case
  proof cases
    case 1
    then show ?thesis
      using first kb arn orch gen by (simp add: build_retrieve_config_def)
  next
    case 2
    have "a \<noteq> []" using 2(1) by (rule model_arn_attempts_nonempty)
    moreover have "retrieveAndGenerateConfiguration p = Some (?c\<lparr>modelArn := a\<rparr>)"
      using 2(2) first(1) by (simp add: set_model_arn_config)
    ultimately show ?thesis
      using first kb 2(2) orch gen
      by (simp add: build_retrieve_config_def set_model_arn_input set_model_arn_sessionId)
  qed
qed

theorem query_requests_configured_witness:
  "length (snd (query claude_config
             (provider_accepting (foundation_model_arn claude_config alt_model)
                session_response)
             ''What is X?'' (Some ''sess-1'') None None True)) = 2 \<and>
   snd (query claude_config
          (provider_accepting (foundation_model_arn claude_config alt_model)
             session_response)
          ''What is X?'' (Some ''sess-1'') None None True) ! 1 =
     \<lparr>input_text = ''What is X?'',
      retrieveAndGenerateConfiguration =
        Some \<lparr>config_type = ''KNOWLEDGE_BASE'',
              knowledgeBaseId = ''R6TD9J5RHA'',
              modelArn =
                ''arn:aws:bedrock:us-east-1::foundation-model/anthropic.claude-3-5-sonnet-20240620-v1:0'',
              numberOfResults = 5,
              orchestrationPromptTemplate =
                ''Review the following retrieved documents and prepare a comprehensive context to help answer the user's question. Organize the information logically and include all relevant details.\<newline>\<newline>Retrieved Documents:\<newline>$search_results$\<newline>\<newline>User Question:\<newline>$query$\<newline>\<newline>Conversation History:\<newline>$conversation_history$\<newline>\<newline>Output Format Instructions:\<newline>$output_format_instructions$\<newline>\<newline>Organized Context:'',
              generationPromptTemplate =
                ''Use the following pieces of context to answer the question at the end. If you don't know the answer, just say that you don't know, don't try to make up an answer.\<newline>\<newline>Context:\<newline>$search_results$\<newline>\<newline>Question: $query$\<newline>\<newline>Answer:''\<rparr>,
      sessionId = Some ''sess-1''\<rparr>"
proof -
  let ?sent = "snd (query claude_config
             (provider_accepting (foundation_model_arn claude_config alt_model)
                session_response)
             ''What is X?'' (Some ''sess-1'') None None True)"
  have len: "length ?sent = 2" by code_simp
  then have mem: "?sent ! 1 \<in> set ?sent" by simp
  have sid: "session_id_matches ''sess-1''" by code_simp
  have kb: "strip (kb_id claude_config) = ''R6TD9J5RHA''" by code_simp
  have arn: "map_option modelArn (retrieveAndGenerateConfiguration (?sent ! 1)) =
      Some ''arn:aws:bedrock:us-east-1::foundation-model/anthropic.claude-3-5-sonnet-20240620-v1:0''"
    by code_simp
  have inp: "input_text (?sent ! 1) = ''What is X?''" by code_simp
  obtain c where c: "retrieveAndGenerateConfiguration (?sent ! 1) = Some c"
      "config_type c = ''KNOWLEDGE_BASE''" "knowledgeBaseId c = strip (kb_id claude_config)"
      "numberOfResults c = 5"
      "orchestrationPromptTemplate c =
            ''Review the following retrieved documents and prepare a comprehensive context to help answer the user's question. Organize the information logically and include all relevant details.\<newline>\<newline>Retrieved Documents:\<newline>$search_results$\<newline>\<newline>User Question:\<newline>$query$\<newline>\<newline>Conversation History:\<newline>$conversation_history$\<newline>\<newline>Output Format Instructions:\<newline>$output_format_instructions$\<newline>\<newline>Organized Context:''"
      "generationPromptTemplate c =
            ''Use the following pieces of context to answer the question at the end. If you don't know the answer, just say that you don't know, don't try to make up an answer.\<newline>\<newline>Context:\<newline>$search_results$\<newline>\<newline>Question: $query$\<newline>\<newline>Answer:''"
    and sess: "sessionId (?sent ! 1) =
       (case Some ''sess-1'' of
          None \<Rightarrow> None
        | Some s \<Rightarrow> if s \<noteq> [] \<and> session_id_matches s then Some s else None)"
    using query_requests_configured [rule_format, OF mem] by blast
  have "modelArn c =
      ''arn:aws:bedrock:us-east-1::foundation-model/anthropic.claude-3-5-sonnet-20240620-v1:0''"
    using arn c(1) by simp
  then have cfg: "c = \<lparr>config_type = ''KNOWLEDGE_BASE'',
              knowledgeBaseId = ''R6TD9J5RHA'',
              modelArn =
                ''arn:aws:bedrock:us-east-1::foundation-model/anthropic.claude-3-5-sonnet-20240620-v1:0'',
              numberOfResults = 5,
              orchestrationPromptTemplate =
                ''Review the following retrieved documents and prepare a comprehensive context to help answer the user's question. Organize the information logically and include all relevant details.\<newline>\<newline>Retrieved Documents:\<newline>$search_results$\<newline>\<newline>User Question:\<newline>$query$\<newline>\<newline>Conversation History:\<newline>$conversation_history$\<newline>\<newline>Output Format Instructions:\<newline>$output_format_instructions$\<newline>\<newline>Organized Context:'',
              generationPromptTemplate =
                ''Use the following pieces of context to answer the question at the end. If you don't know the answer, just say that you don't know, don't try to make up an answer.\<newline>\<newline>Context:\<newline>$search_results$\<newline>\<newline>Question: $query$\<newline>\<newline>Answer:''\<rparr>"
    using c(2-6) kb by (cases c) simp
  have "sessionId (?sent ! 1) = Some ''sess-1''"
    using sess sid by simp
  then have "?sent ! 1 = \<lparr>input_text = ''What is X?'',
      retrieveAndGenerateConfiguration = Some c, sessionId = Some ''sess-1''\<rparr>"
    using inp c(1) by (cases "?sent ! 1") simp
  then show ?thesis using len unfolding cfg by simp
qed

lemma query_client_error_plain:
  assumes "valid_input self q"
    and "prov 0 (first_request self q sid h adv) = Inl (ClientError info s)"
    and "\<not> (error_code_of info = ''ValidationException'' \<and>
            is_model_error (error_message_of info s))"
  shows "query self prov q sid h qt adv =
           (Inl (Exception (''Failed to query knowledge base: ''
                   @ aws_error (error_code_of info) (error_message_of info s))),
            [first_request self q sid h adv])"
  using assms(2,3) by (simp add: query_valid [OF assms(1)] invoke_client_plain)

lemma query_error_shape:
  assumes "fst (query self prov q sid h qt adv) = Inl e"
  shows "(\<exists>m. e = ValueError m) \<or>
         (\<exists>m. e = Exception (''Failed to query knowledge base: '' @ m))"
proof (cases "valid_input self q")
  case True
  show ?thesis
    using assms unfolding query_valid [OF True]
    by (auto split: prod.splits sum.splits)
next
  case False
  show ?thesis
  proof (cases "kb_id self = []")
    case True
    then show ?thesis using assms by (auto simp: query_def)
  next
    case nonempty: False
    have "\<exists>m. query_body self prov q sid h qt adv = (Inl (ValueError m), [])"
      using False nonempty by (auto simp: query_body_def valid_input_def Let_def)
    then show ?thesis using assms nonempty by (auto simp: query_def)
  qed
qed

text \<open>
  Claim C1, evaluated. The provider raises \<open>UnrecognizedClientException\<close> on the first
  call. One request is sent and none after it, and the call fails; but the failure is
  the generic one, \<open>Failed to query knowledge base: AWS Error (...)\<close>: the handler of
  the inner \<open>try\<close> has already turned the provider error into a plain exception, so
  the handler that holds the remediation hint is never entered. No call of \<open>query\<close>
  at all fails with the hint.
\<close>

theorem query_auth_error_generic:
  "query example_config (provider_raising auth_error) ''What is X?'' None None None True =
     (Inl (Exception
        ''Failed to query knowledge base: AWS Error (UnrecognizedClientException): The security token included in the request is invalid.''),
      [first_request example_config ''What is X?'' None None True]) \<and>
   ''UnrecognizedClientException'' \<in> set auth_error_codes \<and>
   \<not> str_in ''Please configure AWS credentials''
       ''Failed to query knowledge base: AWS Error (UnrecognizedClientException): The security token included in the request is invalid.'' \<and>
   fst (query self prov q sid h qt adv) \<noteq> Inl (Exception (helpful_msg c m))"
proof -
  have valid: "valid_input example_config ''What is X?''" by code_simp
  have never: "fst (query self prov q sid h qt adv) \<noteq> Inl (Exception (helpful_msg c m))"
    using query_error_shape [of self prov q sid h qt adv "Exception (helpful_msg c m)"]
    by (auto simp: helpful_msg_def)
  have first: "provider_raising auth_error 0
                 (first_request example_config ''What is X?'' None None True) =
               Inl (ClientError
                 (Some \<lparr>Code = Some ''UnrecognizedClientException'',
                        Message = Some ''The security token included in the request is invalid.''\<rparr>)
                 ''An error occurred (UnrecognizedClientException) when calling the RetrieveAndGenerate operation: The security token included in the request is invalid.'')"
    by (simp add: provider_raising_def auth_error_def)
  have "query example_config (provider_raising auth_error) ''What is X?'' None None None True =
     (Inl (Exception
        ''Failed to query knowledge base: AWS Error (UnrecognizedClientException): The security token included in the request is invalid.''),
      [first_request example_config ''What is X?'' None None True])"
    using query_client_error_plain [where prov = "provider_raising auth_error", OF valid first]
    by (simp add: error_code_of_def error_message_of_def aws_error_def)
  moreover have "''UnrecognizedClientException'' \<in> set auth_error_codes"
    by (simp add: auth_error_codes_def)
  moreover have "\<not> str_in ''Please configure AWS credentials''
       ''Failed to query knowledge base: AWS Error (UnrecognizedClientException): The security token included in the request is invalid.''"
    by code_simp
  ultimately show ?thesis using never by blast
qed

lemma strip_id:
  assumes "s \<noteq> []" "\<not> is_space (hd s)" "\<not> is_space (last s)"
  shows "strip s = s"
proof -
  have "dropWhile is_space s = s"
    using assms by (simp add: dropWhile_eq_self_iff)
  moreover have "dropWhile is_space (rev s) = rev s"
    using assms by (simp add: dropWhile_eq_self_iff hd_rev)
  ultimately show ?thesis by (simp add: strip_def)
qed

lemma strip_foundation_model_arn:
  assumes "m \<noteq> []" "\<not> is_space (last m)"
  shows "strip (foundation_model_arn self m) = foundation_model_arn self m"
proof (rule strip_id)
  show "foundation_model_arn self m \<noteq> []" by simp
  show "\<not> is_space (hd (foundation_model_arn self m))"
    by (simp add: foundation_model_arn_def is_space_def)
  show "\<not> is_space (last (foundation_model_arn self m))"
    using assms by (simp add: foundation_model_arn_def)
qed

lemma get_model_arn_of_arn:
  "model_id self = foundation_model_arn self m \<Longrightarrow> get_model_arn self = model_id self"
  by (simp add: get_model_arn_def foundation_model_arn_def)

lemma model_arn_attempts_not_model_id:
  assumes "a \<in> set (model_arn_attempts self (strip (get_model_arn self)))"
  shows "a \<noteq> model_id self"
proof
  assume eq: "a = model_id self"
  let ?cur = "strip (get_model_arn self)"
  let ?base = "takeWhile (\<lambda>c. c \<noteq> CHR '':'') (model_id self)"
  have ne: "a \<noteq> ?cur"
    using assms model_arn_attempts_not_current [of ?cur self] by auto
  from assms consider "a = foundation_model_arn self (model_id self)"
    | "a = foundation_model_arn self alt_model"
    | "a = foundation_model_arn self ?base"
    by (auto simp: model_arn_attempts_filter split: if_splits)
  then show False
  proof cases
    case 1
    then have "length (model_id self) = length (foundation_model_arn self (model_id self))"
      using eq by simp
    then show False by (simp add: foundation_model_arn_def)
  next
    case 2
    then have m: "model_id self = foundation_model_arn self alt_model" using eq by simp
    have "strip (foundation_model_arn self alt_model) = foundation_model_arn self alt_model"
      by (rule strip_foundation_model_arn) (simp_all add: alt_model_def is_space_def)
    then have "?cur = a"
      using get_model_arn_of_arn [OF m] m 2 by simp
    then show False using ne by simp
  next
    case 3
    then have m: "model_id self = foundation_model_arn self ?base" using eq by simp
    have "?base = takeWhile (\<lambda>c. c \<noteq> CHR '':'') (foundation_model_arn self ?base)"
      using m by simp
    also have "\<dots> = ''arn''"
      by (simp add: foundation_model_arn_def)
    finally have base: "?base = ''arn''" .
    have "strip (foundation_model_arn self ''arn'') = foundation_model_arn self ''arn''"
      by (rule strip_foundation_model_arn) (simp_all add: is_space_def)
    then have "?cur = a"
      using get_model_arn_of_arn [OF m] m 3 base by simp
    then show False using ne by simp
  qed
qed

text \<open>
  Claim C2, as the code has it. When the first attempt fails with a model-related
  \<open>ValidationException\<close> and the call still succeeds, a later request succeeded, with
  an identifier of the list of alternatives, different from the first one; the
  metadata of the result names the configured model id all the same, which is never the
  identifier of the request that succeeded.
\<close>

theorem query_metadata_model_configured:
  assumes "query self prov q sid h qt adv = (Inr r, p # rest)"
    and "prov 0 p = Inl (ClientError info s)"
    and "error_code_of info = ''ValidationException''"
    and "is_model_error (error_message_of info s)"
  shows "metadata_model r = model_id self \<and> rest \<noteq> [] \<and>
         (\<exists>resp. prov (length rest) (last rest) = Inr resp) \<and>
         request_model_arn (last rest) \<in> set (model_arn_attempts self (request_model_arn p)) \<and>
         request_model_arn (last rest) \<noteq> request_model_arn p \<and>
         metadata_model r \<noteq> request_model_arn (last rest)"
proof -
  let ?A = "model_arn_attempts self (strip (get_model_arn self))"
  obtain resp where resp: "prov (length (p # rest) - 1) (last (p # rest)) = Inr resp"
    and r: "r = build_result self resp (last (p # rest)) (query_type_of self (strip q) qt adv)
                 (enhanced_question_of self (strip q) h adv) (strip q)"
    using query_success [OF assms(1)] by blast
  have ne: "rest \<noteq> []"
  proof
    assume "rest = []"
    then show False using resp assms(2) by simp
  qed
  have snd: "snd (query self prov q sid h qt adv) = p # rest"
    using assms(1) by simp
  have p: "p = first_request self q sid h adv"
    using query_hd_sent [OF snd] by simp
  obtain k where k: "rest = map (set_model_arn p) (take k ?A)"
    using query_hd_sent [OF snd] by blast
  have cfg: "retrieveAndGenerateConfiguration p =
             Some (build_retrieve_config self (get_model_arn self))"
    unfolding p by (rule first_request_config)
  have cur: "request_model_arn p = strip (get_model_arn self)"
    unfolding p by (rule first_request_model_arn)
  have tk: "take k ?A \<noteq> []" using ne k by auto
  have "last rest = set_model_arn p (last (take k ?A))"
    unfolding k using tk by (simp add: last_map)
  then have arn: "request_model_arn (last rest) = last (take k ?A)"
    by (simp add: request_model_arn_set [OF cfg])
  have mem: "last (take k ?A) \<in> set ?A"
    using tk by (meson in_set_takeD last_in_set)
  have md: "metadata_model r = model_id self"
    unfolding r by (simp add: build_result_def)
  have "\<exists>resp. prov (length rest) (last rest) = Inr resp"
    using resp ne by auto
  moreover have "request_model_arn (last rest) \<noteq> request_model_arn p"
    using mem model_arn_attempts_not_current [of "strip (get_model_arn self)" self]
    unfolding arn cur by auto
  moreover have "metadata_model r \<noteq> request_model_arn (last rest)"
    using model_arn_attempts_not_model_id [OF mem] unfolding arn md by simp
  ultimately show ?thesis using md ne mem unfolding arn cur by blast
qed

lemma claude_retry_run:
  "query claude_config
     (provider_accepting (foundation_model_arn claude_config alt_model) session_response)
     ''What is X?'' None None None True =
   (Inr \<lparr>answer = ''X is a thing.'', result_session_id = Some ''session-1'',
         result_query_type = ''general'', result_enhanced_question = None,
         metadata_model = ''anthropic.claude-3-5-sonnet-20241022-v2:0'',
         metadata_kb_id = ''R6TD9J5RHA''\<rparr>,
    [first_request claude_config ''What is X?'' None None True,
     set_model_arn (first_request claude_config ''What is X?'' None None True)
       (foundation_model_arn claude_config alt_model)])"
  by code_simp

theorem query_metadata_model_configured_witness:
  "provider_accepting (foundation_model_arn claude_config alt_model) session_response 0
     (first_request claude_config ''What is X?'' None None True) = Inl model_error \<and>
   is_model_error ''model identifier invalid'' \<and>
   fst (query claude_config
          (provider_accepting (foundation_model_arn claude_config alt_model) session_response)
          ''What is X?'' None None None True) =
     Inr \<lparr>answer = ''X is a thing.'', result_session_id = Some ''session-1'',
          result_query_type = ''general'', result_enhanced_question = None,
          metadata_model = model_id claude_config,
          metadata_kb_id = ''R6TD9J5RHA''\<rparr> \<and>
   request_model_arn
     (set_model_arn (first_request claude_config ''What is X?'' None None True)
        (foundation_model_arn claude_config alt_model)) \<noteq>
   request_model_arn (first_request claude_config ''What is X?'' None None True) \<and>
   model_id claude_config \<noteq>
   request_model_arn
     (set_model_arn (first_request claude_config ''What is X?'' None None True)
        (foundation_model_arn claude_config alt_model))"
proof -
  let ?prov = "provider_accepting (foundation_model_arn claude_config alt_model) session_response"
  let ?P = "first_request claude_config ''What is X?'' None None True"
  let ?info = "Some \<lparr>Code = Some ''ValidationException'',
                      Message = Some ''model identifier invalid''\<rparr>"
  let ?s = "''An error occurred (ValidationException) when calling the RetrieveAndGenerate operation: model identifier invalid''"
  have first: "?prov 0 ?P = Inl (ClientError ?info ?s)"
    by code_simp
  have code: "error_code_of ?info = ''ValidationException''"
    by (simp add: error_code_of_def)
  have msg: "error_message_of ?info ?s = ''model identifier invalid''"
    by (simp add: error_message_of_def)
  have model: "is_model_error ''model identifier invalid''"
    by code_simp
  have model': "is_model_error (error_message_of ?info ?s)"
    unfolding msg by (rule model)
  have m: "model_id claude_config = ''anthropic.claude-3-5-sonnet-20241022-v2:0''"
    by (simp add: claude_config_def)
  from query_metadata_model_configured [where prov = ?prov, OF claude_retry_run first code model']
  show ?thesis
    using first model claude_retry_run by (simp add: m model_error_def)
qed

text \<open>
  The claim as stated fails on this run: the second request, for the sibling
  identifier, is the one that succeeds, and the metadata names the configured model id,
  which is neither that identifier nor the model id inside it.
\<close>

theorem query_metadata_model_counterexample:
  "fst (query claude_config
          (provider_accepting (foundation_model_arn claude_config alt_model) session_response)
          ''What is X?'' None None None True) =
     Inr \<lparr>answer = ''X is a thing.'', result_session_id = Some ''session-1'',
          result_query_type = ''general'', result_enhanced_question = None,
          metadata_model = model_id claude_config,
          metadata_kb_id = ''R6TD9J5RHA''\<rparr> \<and>
   map request_model_arn
     (snd (query claude_config
             (provider_accepting (foundation_model_arn claude_config alt_model)
                session_response)
             ''What is X?'' None None None True)) =
     [foundation_model_arn claude_config (model_id claude_config),
      foundation_model_arn claude_config alt_model] \<and>
   model_id claude_config \<noteq> foundation_model_arn claude_config alt_model \<and>
   model_id claude_config \<noteq> alt_model"
  by code_simp



text \<open>
  Claim C3, as the code has it. When the first attempt fails with a model-related
  \<open>ValidationException\<close> and the call fails, every alternative was sent, in the order
  of the list, and the error keeps the provider's code and message inside the text
  \<open>Failed to query knowledge base: AWS Error (ValidationException): <message>\<close>, followed
  by the number of alternatives tried; the identifiers themselves are not in it.
\<close>

theorem query_exhausted_error:
  assumes "query self prov q sid h qt adv = (Inl e, p # rest)"
    and "prov 0 p = Inl (ClientError info s)"
    and "error_code_of info = ''ValidationException''"
    and "is_model_error (error_message_of info s)"
  shows "e = Exception (''Failed to query knowledge base: AWS Error (''
                @ error_code_of info @ ''): '' @ error_message_of info s @ ''. Tried ''
                @ str_nat (length rest) @ '' alternative model formats, all failed.'') \<and>
         map request_model_arn rest = model_arn_attempts self (request_model_arn p)"
proof -
  have e: "e = Exception (''Failed to query knowledge base: ''
                @ aws_error ''ValidationException'' (error_message_of info s) @ ''. Tried ''
                @ str_nat (length (model_arn_attempts self (request_model_arn p)))
                @ '' alternative model formats, all failed.'')"
    and rest: "map request_model_arn rest = model_arn_attempts self (request_model_arn p)"
    using query_retry_failure [OF assms] by simp_all
  have "length rest = length (model_arn_attempts self (request_model_arn p))"
    using rest by (metis length_map)
  then show ?thesis using e rest assms(3) by (simp add: aws_error_def)
qed

lemma rejected_run:
  "query example_config (provider_raising model_error) ''What is X?'' None None None True =
     (Inl (Exception
        ''Failed to query knowledge base: AWS Error (ValidationException): model identifier invalid. Tried 1 alternative model formats, all failed.''),
      [first_request example_config ''What is X?'' None None True,
       set_model_arn (first_request example_config ''What is X?'' None None True)
         ''arn:aws:bedrock:us-east-1::foundation-model/openai.gpt-oss-120b-1''])"
  by code_simp

theorem query_exhausted_error_witness:
  "provider_raising model_error 0 (first_request example_config ''What is X?'' None None True) =
     Inl model_error \<and>
   is_model_error ''model identifier invalid'' \<and>
   fst (query example_config (provider_raising model_error) ''What is X?'' None None None True) =
     Inl (Exception
        ''Failed to query knowledge base: AWS Error (ValidationException): model identifier invalid. Tried 1 alternative model formats, all failed.'') \<and>
   model_arn_attempts example_config
     (request_model_arn (first_request example_config ''What is X?'' None None True)) =
     [''arn:aws:bedrock:us-east-1::foundation-model/openai.gpt-oss-120b-1'']"
proof -
  let ?prov = "provider_raising model_error"
  let ?P = "first_request example_config ''What is X?'' None None True"
  let ?info = "Some \<lparr>Code = Some ''ValidationException'',
                      Message = Some ''model identifier invalid''\<rparr>"
  let ?s = "''An error occurred (ValidationException) when calling the RetrieveAndGenerate operation: model identifier invalid''"
  have first: "?prov 0 ?P = Inl (ClientError ?info ?s)"
    by (simp add: provider_raising_def model_error_def)
  have code: "error_code_of ?info = ''ValidationException''"
    by (simp add: error_code_of_def)
  have msg: "error_message_of ?info ?s = ''model identifier invalid''"
    by (simp add: error_message_of_def)
  have model: "is_model_error ''model identifier invalid''"
    by code_simp
  have model': "is_model_error (error_message_of ?info ?s)"
    unfolding msg by (rule model)
  have cfg: "retrieveAndGenerateConfiguration ?P =
      Some (build_retrieve_config example_config (get_model_arn example_config))"
    by (rule first_request_config)
  have "map request_model_arn
          [set_model_arn ?P ''arn:aws:bedrock:us-east-1::foundation-model/openai.gpt-oss-120b-1''] =
        model_arn_attempts example_config (request_model_arn ?P)"
    using query_exhausted_error [where prov = ?prov, OF rejected_run first code model']
    by (rule conjunct2)
  then have att: "model_arn_attempts example_config (request_model_arn ?P) =
      [''arn:aws:bedrock:us-east-1::foundation-model/openai.gpt-oss-120b-1'']"
    by (simp add: request_model_arn_set [OF cfg])
  have fst: "fst (query example_config ?prov ''What is X?'' None None None True) =
     Inl (Exception
        ''Failed to query knowledge base: AWS Error (ValidationException): model identifier invalid. Tried 1 alternative model formats, all failed.'')"
    by (simp add: rejected_run)
  have first': "?prov 0 ?P = Inl model_error"
    by (simp add: provider_raising_def)
  show ?thesis
    using first' model fst att by blast
qed

text \<open>
  The claim as stated fails on this run: the alternative that was tried is not part of
  the error text, which ends with the count.
\<close>

theorem query_exhausted_error_counterexample:
  "fst (query example_config (provider_raising model_error) ''What is X?'' None None None True) =
     Inl (Exception
        ''Failed to query knowledge base: AWS Error (ValidationException): model identifier invalid. Tried 1 alternative model formats, all failed.'') \<and>
   map request_model_arn
     (snd (query example_config (provider_raising model_error) ''What is X?'' None None None
             True)) =
     [''arn:aws:bedrock:us-east-1::foundation-model/openai.gpt-oss-120b-1:0'',
      ''arn:aws:bedrock:us-east-1::foundation-model/openai.gpt-oss-120b-1''] \<and>
   \<not> str_in ''arn:aws:bedrock:us-east-1::foundation-model/openai.gpt-oss-120b-1''
       ''Failed to query knowledge base: AWS Error (ValidationException): model identifier invalid. Tried 1 alternative model formats, all failed.''"
  by code_simp

text \<open>
  Claim C9. A successful call ends with a request the provider answered. The session id
  of the result is the one in that response when it is there and not empty, and
  otherwise the one sent in the request, which is the given id when it passed the format
  check and none otherwise. When the provider assigns a session, that is, when every
  response it returns carries a non-empty session id, the session id of the result is a
  non-empty token, whatever was given: in particular for a call with no session id and
  an empty history.
\<close>

theorem query_result_session_id:
  assumes "query self prov q sid h qt adv = (Inr r, sent)"
  shows "sent \<noteq> [] \<and>
         (\<exists>resp. prov (length sent - 1) (last sent) = Inr resp \<and>
            result_session_id r =
              (case response_sessionId resp of
                 None \<Rightarrow> sessionId (last sent)
               | Some s \<Rightarrow> if s \<noteq> [] then Some s else sessionId (last sent)) \<and>
            (sid = None \<longrightarrow>
               result_session_id r =
                 (case response_sessionId resp of
                    None \<Rightarrow> None
                  | Some s \<Rightarrow> if s \<noteq> [] then Some s else None))) \<and>
         sessionId (last sent) =
           (case sid of
              None \<Rightarrow> None
            | Some s \<Rightarrow> if s \<noteq> [] \<and> session_id_matches s then Some s else None) \<and>
         ((\<forall>n p resp. prov n p = Inr resp \<longrightarrow>
             (\<exists>s. s \<noteq> [] \<and> response_sessionId resp = Some s)) \<longrightarrow>
          (\<exists>s. s \<noteq> [] \<and> result_session_id r = Some s))"
proof -
  obtain resp where ne: "sent \<noteq> []"
    and call: "prov (length sent - 1) (last sent) = Inr resp"
    and r: "r = build_result self resp (last sent) (query_type_of self (strip q) qt adv)
                 (enhanced_question_of self (strip q) h adv) (strip q)"
    and sess: "sessionId (last sent) = sessionId (first_request self q sid h adv)"
    using query_success [OF assms] by blast
  have sent_id: "sessionId (last sent) =
           (case sid of
              None \<Rightarrow> None
            | Some s \<Rightarrow> if s \<noteq> [] \<and> session_id_matches s then Some s else None)"
    unfolding sess by (rule first_request_sessionId)
  have res: "result_session_id r =
              (case response_sessionId resp of
                 None \<Rightarrow> sessionId (last sent)
               | Some s \<Rightarrow> if s \<noteq> [] then Some s else sessionId (last sent))"
    unfolding r by (simp add: build_result_def split: option.split)
  have none: "sid = None \<longrightarrow>
               result_session_id r =
                 (case response_sessionId resp of
                    None \<Rightarrow> None
                  | Some s \<Rightarrow> if s \<noteq> [] then Some s else None)"
    using res sent_id by (simp split: option.split)
  have assigned: "\<exists>s. s \<noteq> [] \<and> result_session_id r = Some s"
    if contract: "\<forall>n p resp. prov n p = Inr resp \<longrightarrow>
          (\<exists>s. s \<noteq> [] \<and> response_sessionId resp = Some s)"
  proof -
    obtain s where "s \<noteq> []" "response_sessionId resp = Some s"
      using contract call by blast
    then show ?thesis using res by simp
  qed
  show ?thesis
  proof (intro conjI, goal_cases)
    case 1
    show ?case by (rule ne)
  next
    case 2
    show ?case by (rule exI [of _ resp]) (intro conjI call res none)
  next
    case 3
    show ?case by (rule sent_id)
  next
    case 4
    show ?case by (rule impI) (rule assigned)
  qed
qed

lemma session_run:
  "query example_config (provider_returning session_response) ''What is X?'' None (Some [])
     None True =
   (Inr \<lparr>answer = ''X is a thing.'', result_session_id = Some ''session-1'',
         result_query_type = ''general'', result_enhanced_question = None,
         metadata_model = ''openai.gpt-oss-120b-1:0'', metadata_kb_id = ''R6TD9J5RHA''\<rparr>,
    [first_request example_config ''What is X?'' None (Some []) True])"
  by code_simp

theorem query_result_session_id_witness:
  "fst (query example_config (provider_returning session_response) ''What is X?'' None
          (Some []) None True) =
     Inr \<lparr>answer = ''X is a thing.'', result_session_id = Some ''session-1'',
          result_query_type = ''general'', result_enhanced_question = None,
          metadata_model = ''openai.gpt-oss-120b-1:0'', metadata_kb_id = ''R6TD9J5RHA''\<rparr> \<and>
   provider_returning session_response 0
     (first_request example_config ''What is X?'' None (Some []) True) = Inr session_response \<and>
   response_sessionId session_response = Some ''session-1'' \<and>
   sessionId (first_request example_config ''What is X?'' None (Some []) True) = None \<and>
   (\<exists>s. s \<noteq> [] \<and>
        result_session_id
          \<lparr>answer = ''X is a thing.'', result_session_id = Some ''session-1'',
           result_query_type = ''general'', result_enhanced_question = None,
           metadata_model = ''openai.gpt-oss-120b-1:0'', metadata_kb_id = ''R6TD9J5RHA''\<rparr> =
        Some s)"
proof -
  have assigns: "\<forall>n p resp. provider_returning session_response n p = Inr resp \<longrightarrow>
          (\<exists>s. s \<noteq> [] \<and> response_sessionId resp = Some s)"
    by (auto simp: provider_returning_def session_response_def)
  note t = query_result_session_id [where prov = "provider_returning session_response",
             OF session_run]
  have nonempty: "\<exists>s. s \<noteq> [] \<and>
        result_session_id
          \<lparr>answer = ''X is a thing.'', result_session_id = Some ''session-1'',
           result_query_type = ''general'', result_enhanced_question = None,
           metadata_model = ''openai.gpt-oss-120b-1:0'', metadata_kb_id = ''R6TD9J5RHA''\<rparr> =
        Some s"
    by (rule t [THEN conjunct2, THEN conjunct2, THEN conjunct2, THEN mp, OF assigns])
  have run: "fst (query example_config (provider_returning session_response) ''What is X?''
          None (Some []) None True) =
     Inr \<lparr>answer = ''X is a thing.'', result_session_id = Some ''session-1'',
          result_query_type = ''general'', result_enhanced_question = None,
          metadata_model = ''openai.gpt-oss-120b-1:0'', metadata_kb_id = ''R6TD9J5RHA''\<rparr>"
    by (simp add: session_run)
  have call: "provider_returning session_response 0
     (first_request example_config ''What is X?'' None (Some []) True) = Inr session_response"
    by (simp add: provider_returning_def)
  have resp: "response_sessionId session_response = Some ''session-1''"
    by (simp add: session_response_def)
  have sent: "sessionId (first_request example_config ''What is X?'' None (Some []) True) = None"
    by (simp add: first_request_sessionId)
  show ?thesis
    by (intro conjI run call resp sent nonempty)
qed

text \<open>
  The non-empty session id rests on the provider: were a response to carry no session
  id, with none given, the call would succeed and the result would have none.
\<close>

lemma query_result_session_id_from_provider:
  "fst (query example_config (provider_returning sessionless_response) ''What is X?'' None
          (Some []) None True) =
     Inr \<lparr>answer = ''X is a thing.'', result_session_id = None,
          result_query_type = ''general'', result_enhanced_question = None,
          metadata_model = ''openai.gpt-oss-120b-1:0'', metadata_kb_id = ''R6TD9J5RHA''\<rparr>"
  by code_simp

end
